theory Spec2Isabelle
  imports Main "HOL-Library.Sublist"
begin

section \<open>The legacy console bot of pandora (src/pandora/bots/legacy.py)\<close>

text \<open>
  A shallow embedding of the methods of \<^verbatim>\<open>ChatBot\<close>, \<^verbatim>\<open>State\<close> and
  \<^verbatim>\<open>ChatPrompt\<close>. Python strings are HOL strings, a character standing for a
  code point below 256. Objects that the code shares by reference, the
  \<^verbatim>\<open>ChatPrompt\<close> instances, live in a heap indexed by address; the console, the
  user and the remote service are the fields of one \<open>world\<close> record: what the bot has
  written and called so far (the trace) and what the coming reads and calls will return.
\<close>

subsection \<open>Python values\<close>

datatype exn =
    Exception string
  | KeyboardInterrupt
  | EOFError
  | KeyError string
  | IndexError
  | AttributeError
  | TypeError
  | ValueError

text \<open>The outcome of a call: a value, an exception, or a call of \<^verbatim>\<open>self.run()\<close>.
  \<^verbatim>\<open>run\<close> ends in \<^verbatim>\<open>__talk_loop\<close>, a \<^verbatim>\<open>while True\<close> without
  \<^verbatim>\<open>break\<close> or \<^verbatim>\<open>return\<close>, so a call of it never comes back with a value,
  and nothing in the file catches an exception: the caller's remaining code is never run,
  and the controller starts again from \<^verbatim>\<open>run\<close>.\<close>

datatype 'a outcome = Return 'a | Raise exn | Run

text \<open>Truth value of an optional string: \<^verbatim>\<open>None\<close> and \<^verbatim>\<open>''\<close> are false.\<close>

definition truthy :: "string option \<Rightarrow> bool" where
  "truthy x = (case x of None \<Rightarrow> False | Some s \<Rightarrow> s \<noteq> [])"

subsection \<open>ChatPrompt and State\<close>

type_synonym addr = nat

record ChatPrompt =
  prompt :: "string option"
  parent_id :: "string option"
  message_id :: string

record State =
  title :: "string option"
  conversation_id :: "string option"
  model_slug :: "string option"
  user_prompt :: addr
  chatgpt_prompt :: addr

subsection \<open>What the remote service returns\<close>

record message =
  msg_id :: string
  author_role :: "string option"
  role :: "string option"
  parts :: "string list"
  meta_model_slug :: "string option"
  end_turn :: bool

record result =
  error :: "string option"
  message :: "message option"
  res_conversation_id :: "string option"

record node =
  parent :: "string option"
  node_id :: string
  node_message :: "message option"

record conversation =
  conv_title :: string
  current_node :: string
  mapping :: "(string \<times> node) list"

record item =
  item_id :: string
  item_title :: string

record listing =
  total :: int
  offset :: int
  limit :: int
  items :: "item list"

subsection \<open>The world\<close>

text \<open>Console output and delegated calls, in the order the bot makes them.
  \<open>Success_end\<close> is \<^verbatim>\<open>Console.success(text, end='')\<close>; \<open>Print\<close> is \<^verbatim>\<open>print\<close>.\<close>

datatype event =
    Info string
  | Info_b string
  | Info_bh string
  | Warn string
  | Error string
  | Debug string
  | Debug_h string
  | Success string
  | Success_b string
  | Success_end string
  | Print string
  | Prompt_ask string "string list"
  | Confirm_ask string
  | Call_list_conversations int int
  | Call_get_conversation string
  | Call_set_conversation_title string string
  | Call_del_conversation string

text \<open>\<open>default_user_prompt\<close> and \<open>default_chatgpt_prompt\<close> are the default values
  of the parameters of \<^verbatim>\<open>State.__init__\<close>: Python evaluates a default once, when the
  \<^verbatim>\<open>def\<close> is executed, and keeps the object with the function. \<open>uuid4\<close> is the
  sequence of identifiers that \<^verbatim>\<open>uuid.uuid4\<close> will produce. \<open>stdin\<close> holds the lines
  that \<^verbatim>\<open>input()\<close> will read, \<open>answers\<close> what the user will answer to
  \<^verbatim>\<open>Prompt.ask\<close>, \<open>confirms\<close> to \<^verbatim>\<open>Confirm.ask\<close>; \<open>listings\<close>,
  \<open>conversations\<close>, \<open>set_title_results\<close> and \<open>del_results\<close> hold what the coming
  calls of \<^verbatim>\<open>list_conversations\<close>, \<^verbatim>\<open>get_conversation\<close>,
  \<^verbatim>\<open>set_conversation_title\<close> and \<^verbatim>\<open>del_conversation\<close> will return.\<close>

record world =
  self_state :: "State option"
  heap :: "addr \<Rightarrow> ChatPrompt"
  heap_next :: addr
  default_user_prompt :: addr
  default_chatgpt_prompt :: addr
  uuid4 :: "nat \<Rightarrow> string"
  uuid_next :: nat
  trace :: "event list"
  stdin :: "string list"
  answers :: "string list"
  confirms :: "bool list"
  listings :: "listing list"
  conversations :: "conversation list"
  set_title_results :: "bool list"
  del_results :: "bool list"

definition emit :: "event list \<Rightarrow> world \<Rightarrow> world" where
  "emit es w = w\<lparr>trace := trace w @ es\<rparr>"

subsection \<open>Constructors\<close>

definition gen_message_id :: "world \<Rightarrow> string \<times> world" where
  "gen_message_id w = (uuid4 w (uuid_next w), w\<lparr>uuid_next := Suc (uuid_next w)\<rparr>)"

text \<open>\<^verbatim>\<open>ChatPrompt(prompt, parent_id, message_id)\<close>: a new object on the heap.\<close>

definition ChatPrompt_init ::
  "string option \<Rightarrow> string option \<Rightarrow> string option \<Rightarrow> world \<Rightarrow> addr \<times> world" where
  "ChatPrompt_init text pid mid w =
    (let (pid', w1) = (if truthy pid then (the pid, w) else gen_message_id w);
         (mid', w2) = (if truthy mid then (the mid, w1) else gen_message_id w1);
         a = heap_next w2
     in (a, w2\<lparr>heap := (heap w2)(a := \<lparr>prompt = text, parent_id = Some pid', message_id = mid'\<rparr>),
                heap_next := Suc a\<rparr>))"

text \<open>Executing \<^verbatim>\<open>class State\<close> when the module is imported evaluates the two
  defaults \<^verbatim>\<open>ChatPrompt()\<close> of \<^verbatim>\<open>__init__\<close>.\<close>

definition import_module :: "world \<Rightarrow> world" where
  "import_module w =
    (let (u, w1) = ChatPrompt_init None None None w;
         (c, w2) = ChatPrompt_init None None None w1
     in w2\<lparr>default_user_prompt := u, default_chatgpt_prompt := c\<rparr>)"

text \<open>\<^verbatim>\<open>State(title, conversation_id, model_slug, user_prompt, chatgpt_prompt)\<close>;
  \<open>None\<close> for a prompt is the argument left out.\<close>

definition State_init ::
  "string option \<Rightarrow> string option \<Rightarrow> string option \<Rightarrow> addr option \<Rightarrow> addr option
    \<Rightarrow> world \<Rightarrow> State" where
  "State_init t cid slug up cp w =
    \<lparr>title = t, conversation_id = cid, model_slug = slug,
     user_prompt = (case up of None \<Rightarrow> default_user_prompt w | Some a \<Rightarrow> a),
     chatgpt_prompt = (case cp of None \<Rightarrow> default_chatgpt_prompt w | Some a \<Rightarrow> a)\<rparr>"

subsection \<open>\<^verbatim>\<open>__print_reply\<close>\<close>

text \<open>The body of the \<^verbatim>\<open>async for\<close> at cursor \<open>p\<close>; it returns the new cursor.\<close>

definition reply_event :: "result \<Rightarrow> nat \<Rightarrow> world \<Rightarrow> nat outcome \<times> world" where
  "reply_event res p w =
    (if truthy (error res) then (Raise (Exception (the (error res))), w)
     else case message res of
       None \<Rightarrow> (Raise (Exception ''miss message property.''), w)
     | Some m \<Rightarrow>
        (case parts m of
           [] \<Rightarrow> (Raise IndexError, w)
         | content # _ \<Rightarrow>
            (let text = drop p content in
             case self_state w of
               None \<Rightarrow> (Raise AttributeError, w)
             | Some st \<Rightarrow>
                (let st1 = st\<lparr>conversation_id := res_conversation_id res\<rparr>;
                     c = chatgpt_prompt st1;
                     h1 = (heap w)(c := (heap w c)\<lparr>prompt := Some content\<rparr>);
                     h2 = h1(c := (h1 c)\<lparr>parent_id := Some (message_id (h1 (user_prompt st1)))\<rparr>);
                     h3 = h2(c := (h2 c)\<lparr>message_id := msg_id m\<rparr>);
                     w1 = w\<lparr>self_state := Some st1, heap := h3\<rparr>;
                     w2 = (if text \<noteq> [] then emit [Success_end text] w1 else w1);
                     w3 = (if end_turn m then emit [Print []] w2 else w2)
                 in (Return (p + length text), w3)))))"

fun reply_loop :: "result list \<Rightarrow> nat \<Rightarrow> world \<Rightarrow> nat outcome \<times> world" where
  "reply_loop [] p w = (Return p, w)"
| "reply_loop (res # rest) p w =
    (case reply_event res p w of
       (Return p', w') \<Rightarrow> reply_loop rest p' w'
     | (Raise e, w') \<Rightarrow> (Raise e, w')
     | (Run, w') \<Rightarrow> (Run, w'))"

definition print_reply :: "result list \<Rightarrow> world \<Rightarrow> unit outcome \<times> world" where
  "print_reply generator w =
    (case reply_loop generator 0 w of
       (Return p, w') \<Rightarrow> (Return (), emit [Print []] w')
     | (Raise e, w') \<Rightarrow> (Raise e, w')
     | (Run, w') \<Rightarrow> (Run, w'))"

text \<open>The text written by \<^verbatim>\<open>Console.success(text, end='')\<close>, in order.\<close>

fun emitted :: "event list \<Rightarrow> string" where
  "emitted [] = []"
| "emitted (Success_end t # es) = t @ emitted es"
| "emitted (e # es) = emitted es"

text \<open>An event that carries content: no error, a message, a first part.\<close>

definition content_of :: "result \<Rightarrow> string option" where
  "content_of res =
    (if truthy (error res) then None
     else case message res of
       None \<Rightarrow> None
     | Some m \<Rightarrow> (case parts m of [] \<Rightarrow> None | c # _ \<Rightarrow> Some c))"

subsection \<open>Strings\<close>

text \<open>\<^verbatim>\<open>str.isspace\<close>, \<^verbatim>\<open>str.lower\<close> and \<^verbatim>\<open>str.strip\<close> on code points below 256.\<close>

definition isspace :: "char \<Rightarrow> bool" where
  "isspace c = (of_char c \<in> {9, 10, 11, 12, 13, 28, 29, 30, 31, 32, 133, 160 :: nat})"

definition lower_char :: "char \<Rightarrow> char" where
  "lower_char c =
    (let n = of_char c :: nat
     in if (65 \<le> n \<and> n \<le> 90) \<or> (192 \<le> n \<and> n \<le> 214) \<or> (216 \<le> n \<and> n \<le> 222)
        then char_of (n + 32) else c)"

definition lower :: "string \<Rightarrow> string" where
  "lower s = map lower_char s"

definition strip :: "string \<Rightarrow> string" where
  "strip s = rev (dropWhile isspace (rev (dropWhile isspace s)))"

text \<open>\<^verbatim>\<open>sep.join(lines)\<close>.\<close>

fun join :: "string \<Rightarrow> string list \<Rightarrow> string" where
  "join sep [] = []"
| "join sep [l] = l"
| "join sep (l # ls) = l @ sep @ join sep ls"

subsection \<open>\<^verbatim>\<open>__get_input\<close>\<close>

text \<open>\<^verbatim>\<open>input()\<close> takes the next line of \<open>stdin\<close> and raises \<^verbatim>\<open>EOFError\<close> when
  there is none.\<close>

fun get_input_loop :: "string list \<Rightarrow> string list \<Rightarrow> string outcome \<times> string list" where
  "get_input_loop lines [] = (Raise EOFError, [])"
| "get_input_loop lines (line # rest) =
    (if line = [] then (Return (join ''\<newline>'' lines), rest)
     else if hd line = CHR ''/'' then (Return line, rest)
     else get_input_loop (lines @ [line]) rest)"

definition get_input :: "world \<Rightarrow> string outcome \<times> world" where
  "get_input w = (case get_input_loop [] (stdin w) of (r, rest) \<Rightarrow> (r, w\<lparr>stdin := rest\<rparr>))"

subsection \<open>\<^verbatim>\<open>__process_command\<close> and \<^verbatim>\<open>__talk_loop\<close>\<close>

text \<open>The branch of \<^verbatim>\<open>__process_command\<close> that a command takes, named by what the
  branch does: it raises \<^verbatim>\<open>KeyboardInterrupt\<close> or calls one method.\<close>

datatype action =
    Raise_KeyboardInterrupt
  | Call_del_conversation_state
  | Call_set_conversation_title_state
  | Call_run
  | Call_load_conversation
  | Call_new_conversation
  | Call_regenerate_reply
  | Call_print_access_token
  | Call_clear_screen
  | Call_print_version
  | Call_print_usage

text \<open>The chain of comparisons, on the command stripped and lowered.\<close>

definition dispatch :: "string \<Rightarrow> action" where
  "dispatch command =
    (if ''/quit'' = command \<or> ''/exit'' = command \<or> ''/bye'' = command then Raise_KeyboardInterrupt
     else if ''/del'' = command \<or> ''/delete'' = command \<or> ''/remove'' = command
       then Call_del_conversation_state
     else if ''/title'' = command \<or> ''/set_title'' = command \<or> ''/set-title'' = command
       then Call_set_conversation_title_state
     else if ''/select'' = command then Call_run
     else if ''/refresh'' = command \<or> ''/reload'' = command then Call_load_conversation
     else if ''/new'' = command then Call_new_conversation
     else if ''/regen'' = command \<or> ''/regenerate'' = command then Call_regenerate_reply
     else if ''/token'' = command then Call_print_access_token
     else if ''/cls'' = command \<or> ''/clear'' = command then Call_clear_screen
     else if ''/ver'' = command \<or> ''/version'' = command then Call_print_version
     else Call_print_usage)"

definition process_command :: "string \<Rightarrow> action" where
  "process_command command = dispatch (lower (strip command))"

text \<open>The dispatch table as the specification gives it (section 4.5), alias by alias, to
  compare \<open>process_command\<close> with.\<close>

definition spec_dispatch_table :: "(string \<times> action) list" where
  "spec_dispatch_table =
    [(''/quit'', Raise_KeyboardInterrupt), (''/exit'', Raise_KeyboardInterrupt),
     (''/bye'', Raise_KeyboardInterrupt),
     (''/del'', Call_del_conversation_state), (''/delete'', Call_del_conversation_state),
     (''/remove'', Call_del_conversation_state),
     (''/title'', Call_set_conversation_title_state),
     (''/set_title'', Call_set_conversation_title_state),
     (''/set-title'', Call_set_conversation_title_state),
     (''/select'', Call_run),
     (''/refresh'', Call_load_conversation), (''/reload'', Call_load_conversation),
     (''/new'', Call_new_conversation),
     (''/regen'', Call_regenerate_reply), (''/regenerate'', Call_regenerate_reply),
     (''/token'', Call_print_access_token),
     (''/cls'', Call_clear_screen), (''/clear'', Call_clear_screen),
     (''/ver'', Call_print_version), (''/version'', Call_print_version)]"

text \<open>What one round of \<^verbatim>\<open>__talk_loop\<close> does with the input unit it has read: nothing
  (\<^verbatim>\<open>continue\<close>), \<^verbatim>\<open>__process_command\<close>, or \<^verbatim>\<open>__talk\<close>.\<close>

datatype turn = Continue | Command action | Talk string

definition talk_loop_turn :: "string \<Rightarrow> turn" where
  "talk_loop_turn p =
    (if p = [] then Continue
     else if CHR ''/'' = hd p then Command (process_command p)
     else Talk p)"

text \<open>One round from the console: the banner, \<^verbatim>\<open>__get_input\<close>, the dispatch.\<close>

definition talk_loop_round :: "world \<Rightarrow> turn outcome \<times> world" where
  "talk_loop_round w =
    (case get_input (emit [Info_b ''You:''] w) of
       (Return p, w') \<Rightarrow> (Return (talk_loop_turn p), w')
     | (Raise e, w') \<Rightarrow> (Raise e, w')
     | (Run, w') \<Rightarrow> (Run, w'))"

subsection \<open>\<^verbatim>\<open>__set_conversation_title\<close> and \<^verbatim>\<open>__del_conversation\<close>\<close>

text \<open>A delegated call takes its result from the world; with no result left the call
  raises, as a call of the remote service can.\<close>

definition remote_failure :: exn where
  "remote_failure = Exception ''remote call failed''"

text \<open>The method changes the \<^verbatim>\<open>State\<close> object it is given; the model returns it.\<close>

definition set_conversation_title :: "State \<Rightarrow> world \<Rightarrow> State outcome \<times> world" where
  "set_conversation_title st w =
    (if \<not> truthy (conversation_id st)
     then (Return st, emit [Error ''#### Conversation has not been created.''] w)
     else
      (let w1 = emit [Prompt_ask ''New title'' []] w in
       case answers w1 of
         [] \<Rightarrow> (Raise EOFError, w1)
       | new_title # rest \<Rightarrow>
          (let w2 = w1\<lparr>answers := rest\<rparr> in
           if length new_title > 64 then (Return st, emit [Error ''#### Title too long.''] w2)
           else
            (let w3 = emit [Call_set_conversation_title (the (conversation_id st)) new_title] w2 in
             case set_title_results w3 of
               [] \<Rightarrow> (Raise remote_failure, w3)
             | ok # oks \<Rightarrow>
                (let w4 = w3\<lparr>set_title_results := oks\<rparr> in
                 if ok then (Return (st\<lparr>title := Some new_title\<rparr>),
                             emit [Debug ''#### Set title success.''] w4)
                 else (Return st, emit [Error ''#### Set title failed.''] w4))))))"

definition del_conversation :: "State \<Rightarrow> world \<Rightarrow> unit outcome \<times> world" where
  "del_conversation st w =
    (if \<not> truthy (conversation_id st)
     then (Return (), emit [Error ''#### Conversation has not been created.''] w)
     else
      (let w1 = emit [Confirm_ask ''Are you sure?''] w in
       case confirms w1 of
         [] \<Rightarrow> (Raise EOFError, w1)
       | yes # rest \<Rightarrow>
          (let w2 = w1\<lparr>confirms := rest\<rparr> in
           if \<not> yes then (Return (), w2)
           else
            (let w3 = emit [Call_del_conversation (the (conversation_id st))] w2 in
             case del_results w3 of
               [] \<Rightarrow> (Raise remote_failure, w3)
             | ok # oks \<Rightarrow>
                (let w4 = w3\<lparr>del_results := oks\<rparr> in
                 if ok then (Run, w4)
                 else (Return (), emit [Error ''#### Delete conversation failed.''] w4))))))"

subsection \<open>\<^verbatim>\<open>__load_conversation\<close>\<close>

definition print_conversation_title :: "string \<Rightarrow> world \<Rightarrow> world" where
  "print_conversation_title t w =
    emit [Info_bh (''==================== '' @ t @ '' ====================''),
          Debug_h ''Double enter to send. Type /? for help.''] w"

text \<open>The first loop: from \<open>current_node_id\<close> up the parents, each node put in front of the
  list, until a node without a parent. A mapping whose parents form a cycle keeps the loop
  running: the result is \<open>None\<close>. A missing node is a \<^verbatim>\<open>KeyError\<close>.\<close>

partial_function (option) walk ::
  "(string \<times> node) list \<Rightarrow> string \<Rightarrow> node list \<Rightarrow> (exn + node list) option" where
  "walk m current_node_id nodes =
    (case map_of m current_node_id of
       None \<Rightarrow> Some (Inl (KeyError current_node_id))
     | Some n \<Rightarrow>
        if \<not> truthy (parent n) then Some (Inr nodes)
        else walk m (the (parent n)) (n # nodes))"

text \<open>The body of the second loop, for one node, and the loop. The prompt is the object
  the session refers to: the assignments go to the heap.\<close>

definition replay_node :: "node \<Rightarrow> world \<Rightarrow> unit outcome \<times> world" where
  "replay_node n w =
    (case node_message n of
       None \<Rightarrow> (Raise TypeError, w)
     | Some m \<Rightarrow>
        (case self_state w of
           None \<Rightarrow> (Raise AttributeError, w)
         | Some st \<Rightarrow>
            (let st1 = (case meta_model_slug m of
                          Some slug \<Rightarrow> st\<lparr>model_slug := Some slug\<rparr>
                        | None \<Rightarrow> st);
                 w1 = w\<lparr>self_state := Some st1\<rparr>
             in case (case author_role m of Some r \<Rightarrow> Some r | None \<Rightarrow> role m) of
                  None \<Rightarrow> (Raise (KeyError ''role''), w1)
                | Some r \<Rightarrow>
                   (let a = (if ''user'' = r then user_prompt st1 else chatgpt_prompt st1);
                        w2 = emit [if ''user'' = r then Info_b ''You:''
                                   else Success_b ''ChatGPT:''] w1
                    in case parts m of
                         [] \<Rightarrow> (Raise IndexError, w2)
                       | text # _ \<Rightarrow>
                          (let w3 = emit [if ''user'' = r then Info text else Success text] w2;
                               w4 = w3\<lparr>heap := (heap w3)
                                      (a := \<lparr>prompt = Some text, parent_id = parent n,
                                             message_id = node_id n\<rparr>)\<rparr>
                           in (Return (), emit [Print []] w4))))))"

fun replay :: "node list \<Rightarrow> world \<Rightarrow> unit outcome \<times> world" where
  "replay [] w = (Return (), w)"
| "replay (n # rest) w =
    (case replay_node n w of
       (Return u, w') \<Rightarrow> replay rest w'
     | (Raise e, w') \<Rightarrow> (Raise e, w')
     | (Run, w') \<Rightarrow> (Run, w'))"

definition load_conversation :: "string option \<Rightarrow> world \<Rightarrow> (unit outcome \<times> world) option" where
  "load_conversation cid w =
    (if \<not> truthy cid then Some (Return (), w)
     else
      (let w1 = w\<lparr>self_state := Some (State_init None cid None None None w)\<rparr>;
           w2 = emit [Call_get_conversation (the cid)] w1
       in case conversations w2 of
            [] \<Rightarrow> Some (Raise remote_failure, w2)
          | res # rest \<Rightarrow>
             (let w3 = w2\<lparr>conversations := rest\<rparr> in
              case walk (mapping res) (current_node res) [] of
                None \<Rightarrow> None
              | Some (Inl e) \<Rightarrow> Some (Raise e, w3)
              | Some (Inr nodes) \<Rightarrow>
                 (let w4 = w3\<lparr>self_state :=
                              map_option (\<lambda>st. st\<lparr>title := Some (conv_title res)\<rparr>) (self_state w3)\<rparr>;
                      w5 = print_conversation_title (conv_title res) w4
                  in Some (replay nodes w5)))))"

text \<open>\<^verbatim>\<open>__new_conversation\<close>, once \<^verbatim>\<open>__choice_model\<close> has returned the model.\<close>

definition new_conversation :: "string \<Rightarrow> world \<Rightarrow> world" where
  "new_conversation slug w =
    (let st = State_init None None (Some slug) None None w;
         w1 = w\<lparr>self_state := Some (st\<lparr>title := Some ''New Chat''\<rparr>)\<rparr>
     in print_conversation_title ''New Chat'' w1)"

subsection \<open>Reading a conversation tree\<close>

text \<open>\<open>leads m i up\<close>: in the mapping \<open>m\<close>, the node \<open>i\<close> and its ancestors below the
  root are the nodes \<open>up\<close>, nearest first, and above them stands a node without parent.\<close>

fun leads :: "(string \<times> node) list \<Rightarrow> string \<Rightarrow> node list \<Rightarrow> bool" where
  "leads m i [] = (case map_of m i of None \<Rightarrow> False | Some n \<Rightarrow> \<not> truthy (parent n))"
| "leads m i (n # up) = (map_of m i = Some n \<and> truthy (parent n) \<and> leads m (the (parent n)) up)"

text \<open>What the second loop reads in a node: the role, the first part, the model slug.\<close>

definition node_role :: "node \<Rightarrow> string option" where
  "node_role n =
    (case node_message n of
       None \<Rightarrow> None
     | Some m \<Rightarrow> (case author_role m of Some r \<Rightarrow> Some r | None \<Rightarrow> role m))"

definition node_text :: "node \<Rightarrow> string option" where
  "node_text n =
    (case node_message n of
       None \<Rightarrow> None
     | Some m \<Rightarrow> (case parts m of [] \<Rightarrow> None | t # ts \<Rightarrow> Some t))"

definition node_slug :: "node \<Rightarrow> string option" where
  "node_slug n = (case node_message n of None \<Rightarrow> None | Some m \<Rightarrow> meta_model_slug m)"

definition replayable :: "node \<Rightarrow> bool" where
  "replayable n = (node_role n \<noteq> None \<and> node_text n \<noteq> None)"

definition by_user :: "node \<Rightarrow> bool" where
  "by_user n = (node_role n = Some ''user'')"

text \<open>The prompt record seeded from a node, and the lines that replay it.\<close>

definition seeded :: "node \<Rightarrow> ChatPrompt" where
  "seeded n = \<lparr>prompt = node_text n, parent_id = parent n, message_id = node_id n\<rparr>"

definition shown :: "node \<Rightarrow> event list" where
  "shown n =
    (if by_user n then [Info_b ''You:'', Info (the (node_text n)), Print []]
     else [Success_b ''ChatGPT:'', Success (the (node_text n)), Print []])"

subsection \<open>\<^verbatim>\<open>__choice_conversation\<close>\<close>

text \<open>\<^verbatim>\<open>str\<close> of an integer, and \<^verbatim>\<open>int\<close> of a string of decimal digits (the only
  strings the selector passes to it; anything else is a \<^verbatim>\<open>ValueError\<close> here).\<close>

fun str_nat :: "nat \<Rightarrow> string" where
  "str_nat n = (if n < 10 then [char_of (48 + n)] else str_nat (n div 10) @ [char_of (48 + n mod 10)])"

declare str_nat.simps [simp del]

definition str :: "int \<Rightarrow> string" where
  "str i = (if i < 0 then CHR ''-'' # str_nat (nat (- i)) else str_nat (nat i))"

definition is_digit :: "char \<Rightarrow> bool" where
  "is_digit c = (48 \<le> (of_char c :: nat) \<and> (of_char c :: nat) \<le> 57)"

definition int_of_str :: "string \<Rightarrow> int option" where
  "int_of_str s =
    (if s \<noteq> [] \<and> list_all is_digit s
     then Some (int (foldl (\<lambda>acc c. 10 * acc + (of_char c - 48)) 0 s))
     else None)"

text \<open>\<^verbatim>\<open>xs[i]\<close>; an index below zero is taken from the end of the list.\<close>

definition py_index :: "'a list \<Rightarrow> int \<Rightarrow> exn + 'a" where
  "py_index xs i =
    (if 0 \<le> i \<and> i < int (length xs) then Inr (xs ! nat i)
     else if i < 0 \<and> - int (length xs) \<le> i then Inr (xs ! nat (int (length xs) + i))
     else Inl IndexError)"

text \<open>\<^verbatim>\<open>items[int(s) - 1]\<close>.\<close>

definition item_at :: "item list \<Rightarrow> string \<Rightarrow> exn + item" where
  "item_at its s = (case int_of_str s of None \<Rightarrow> Inl ValueError | Some k \<Rightarrow> py_index its (k - 1))"

definition first_page :: "listing \<Rightarrow> bool" where
  "first_page conv = (0 = offset conv)"

definition last_page :: "listing \<Rightarrow> bool" where
  "last_page conv = (offset conv + limit conv \<ge> total conv)"

text \<open>The list \<open>choices\<close> and the lines of the page, as the code builds and prints them.\<close>

definition item_choices :: "nat \<Rightarrow> string list" where
  "item_choices idx =
    (let number = str (int idx + 1) in [number, CHR ''t'' # number, CHR ''d'' # number])"

definition page_choices :: "listing \<Rightarrow> string list" where
  "page_choices conv =
    [''c''] @ concat (map item_choices [0..<length (items conv)])
    @ (if \<not> last_page conv then [''n''] else [])
    @ (if \<not> first_page conv then [''p''] else [])"

definition page_lines :: "int \<Rightarrow> listing \<Rightarrow> event list" where
  "page_lines page conv =
    [Info_b (''Choice conversation (Page '' @ str page @ ''):'')]
    @ map (\<lambda>idx. Info (''  '' @ str (int idx + 1) @ ''. '' @ item_title (items conv ! idx)))
        [0..<length (items conv)]
    @ (if \<not> last_page conv then [Warn ''  n. >> Next page''] else [])
    @ (if \<not> first_page conv then [Warn ''  p. << Previous page''] else [])
    @ [Warn ''  t?. Set title for the conversation, eg: t1'',
       Warn ''  d?. Delete the conversation, eg: d1'',
       Warn ''  c. ** Start new chat'']"

text \<open>\<^verbatim>\<open>Prompt.ask\<close> with \<open>choices\<close> asks again until the answer is one of them: the
  answer returned is the next of the user's answers that is a choice.\<close>

fun ask_choice :: "string list \<Rightarrow> string list \<Rightarrow> (string \<times> string list) option" where
  "ask_choice choices [] = None"
| "ask_choice choices (a # rest) =
    (if a \<in> set choices then Some (a, rest) else ask_choice choices rest)"

lemma ask_choice_shorter: "ask_choice choices as = Some (a, rest) \<Longrightarrow> length rest < length as"
  by (induction as) (auto split: if_splits)

lemma set_conversation_title_answers:
  "set_conversation_title st w = (r, w') \<Longrightarrow> length (answers w') \<le> length (answers w)"
  by (auto simp: set_conversation_title_def emit_def Let_def split: if_splits list.splits)

lemma del_conversation_answers:
  "del_conversation st w = (r, w') \<Longrightarrow> answers w' = answers w"
  by (auto simp: del_conversation_def emit_def Let_def split: if_splits list.splits)

text \<open>The method, and its \<^verbatim>\<open>while True\<close> over the answers with the page's items and
  choices. The result is the item chosen, or \<^verbatim>\<open>None\<close>.\<close>

function choice_conversation :: "int \<Rightarrow> int \<Rightarrow> world \<Rightarrow> item option outcome \<times> world"
  and choice_loop ::
    "int \<Rightarrow> int \<Rightarrow> item list \<Rightarrow> string list \<Rightarrow> world \<Rightarrow> item option outcome \<times> world"
where
  "choice_conversation page page_size w =
    (let w1 = emit [Call_list_conversations ((page - 1) * page_size) page_size] w in
     case listings w1 of
       [] \<Rightarrow> (Raise remote_failure, w1)
     | conv # rest \<Rightarrow>
        (let w2 = w1\<lparr>listings := rest\<rparr> in
         if total conv = 0 then (Return None, w2)
         else choice_loop page page_size (items conv) (page_choices conv)
                (emit (page_lines page conv) w2)))"
| "choice_loop page page_size its choices w =
    (let w1 = emit [Prompt_ask ''Your choice'' choices] w in
     case ask_choice choices (answers w1) of
       None \<Rightarrow> (Raise EOFError, w1\<lparr>answers := []\<rparr>)
     | Some (choice, rest) \<Rightarrow>
        (let w2 = w1\<lparr>answers := rest\<rparr> in
         if ''c'' = choice then (Return None, w2)
         else if ''n'' = choice then choice_conversation (page + 1) page_size w2
         else if ''p'' = choice then choice_conversation (page - 1) page_size w2
         else if choice = [] then (Raise IndexError, w2)
         else if CHR ''t'' = hd choice then
           (case item_at its (tl choice) of
              Inl e \<Rightarrow> (Raise e, w2)
            | Inr it \<Rightarrow>
               (case set_conversation_title
                       (State_init None (Some (item_id it)) None None None w2) w2 of
                  (Return st, w3) \<Rightarrow> choice_conversation page page_size w3
                | (Raise e, w3) \<Rightarrow> (Raise e, w3)
                | (Run, w3) \<Rightarrow> (Run, w3)))
         else if CHR ''d'' = hd choice then
           (case item_at its (tl choice) of
              Inl e \<Rightarrow> (Raise e, w2)
            | Inr it \<Rightarrow>
               (case del_conversation
                       (State_init None (Some (item_id it)) None None None w2) w2 of
                  (Return u, w3) \<Rightarrow> choice_loop page page_size its choices w3
                | (Raise e, w3) \<Rightarrow> (Raise e, w3)
                | (Run, w3) \<Rightarrow> (Run, w3)))
         else
           (case item_at its choice of
              Inl e \<Rightarrow> (Raise e, w2)
            | Inr it \<Rightarrow> (Return (Some it), w2))))"
  by pat_completeness auto
termination
proof (relation "measure (\<lambda>x. case x of
    Inl (page, page_size, w) \<Rightarrow> 2 * length (answers w) + 1
  | Inr (page, page_size, its, choices, w) \<Rightarrow> 2 * length (answers w))")
  show "wf (measure (\<lambda>x. case x of
    Inl (page, page_size, w) \<Rightarrow> 2 * length (answers w) + 1
  | Inr (page, page_size, its, choices, w) \<Rightarrow> 2 * length (answers w)))"
    by simp
qed (auto simp: emit_def dest!: ask_choice_shorter set_conversation_title_answers[OF sym]
      del_conversation_answers[OF sym])

text \<open>The beginning of \<^verbatim>\<open>run\<close>: the selector with its default page and page size.\<close>

definition run_choice_conversation :: "world \<Rightarrow> item option outcome \<times> world" where
  "run_choice_conversation w = choice_conversation 1 20 w"

subsection \<open>A process to run the definitions on\<close>

text \<open>The world before the module is imported, with nothing to read; \<open>started\<close> is the
  world after the import; \<open>chatting\<close> has a session for a new chat.\<close>

definition boot :: world where
  "boot =
    \<lparr>self_state = None,
     heap = (\<lambda>a. \<lparr>prompt = None, parent_id = None, message_id = []\<rparr>),
     heap_next = 0, default_user_prompt = 0, default_chatgpt_prompt = 0,
     uuid4 = (\<lambda>n. replicate (Suc n) CHR ''u''), uuid_next = 0,
     trace = [], stdin = [], answers = [], confirms = [], listings = [],
     conversations = [], set_title_results = [], del_results = []\<rparr>"

definition started :: world where
  "started = import_module boot"

definition chatting :: world where
  "chatting = started\<lparr>self_state := Some (State_init (Some ''New Chat'') None (Some ''gpt'') None None started)\<rparr>"

text \<open>A reply event with the given node id and accumulated text.\<close>

definition reply :: "string \<Rightarrow> string \<Rightarrow> result" where
  "reply i c =
    \<lparr>error = None,
     message = Some \<lparr>msg_id = i, author_role = Some ''assistant'', role = None, parts = [c],
                     meta_model_slug = None, end_turn = False\<rparr>,
     res_conversation_id = Some ''conv''\<rparr>"

text \<open>A conversation \<open>R -> A (user) -> B (assistant)\<close>, as \<^verbatim>\<open>get_conversation\<close> returns it.\<close>

definition node_R :: node where
  "node_R = \<lparr>parent = None, node_id = ''R'', node_message = None\<rparr>"

definition node_A :: node where
  "node_A =
    \<lparr>parent = Some ''R'', node_id = ''A'',
     node_message = Some \<lparr>msg_id = ''A'', author_role = Some ''user'', role = None,
                          parts = [''Hi''], meta_model_slug = None, end_turn = True\<rparr>\<rparr>"

definition node_B :: node where
  "node_B =
    \<lparr>parent = Some ''A'', node_id = ''B'',
     node_message = Some \<lparr>msg_id = ''B'', author_role = Some ''assistant'', role = None,
                          parts = [''Hello!''], meta_model_slug = Some ''gpt-4'', end_turn = True\<rparr>\<rparr>"

definition greetings :: conversation where
  "greetings =
    \<lparr>conv_title = ''Greetings'', current_node = ''B'',
     mapping = [(''R'', node_R), (''A'', node_A), (''B'', node_B)]\<rparr>"


text \<open>Listings of 45 conversations in pages of 20, and the items of a page.\<close>

definition five_items :: "item list" where
  "five_items =
    [\<lparr>item_id = ''i41'', item_title = ''Forty-one''\<rparr>,
     \<lparr>item_id = ''i42'', item_title = ''Forty-two''\<rparr>,
     \<lparr>item_id = ''i43'', item_title = ''Forty-three''\<rparr>,
     \<lparr>item_id = ''i44'', item_title = ''Forty-four''\<rparr>,
     \<lparr>item_id = ''i45'', item_title = ''Forty-five''\<rparr>]"

definition page_of :: "int \<Rightarrow> int \<Rightarrow> item list \<Rightarrow> listing" where
  "page_of n off its = \<lparr>total = n, offset = off, limit = 20, items = its\<rparr>"

definition twenty_items :: "item list" where
  "twenty_items =
    map (\<lambda>k. \<lparr>item_id = CHR ''i'' # str (int k), item_title = CHR ''T'' # str (int k)\<rparr>) [1..<21]"

text \<open>The user on page 3 of 45 conversations, about to answer \<open>d1\<close> and then \<open>c\<close>; the
  remote service will list page 3 and then the first page of the 44 that remain.\<close>

definition on_page_3 :: world where
  "on_page_3 =
    started\<lparr>listings := [page_of 45 40 five_items, page_of 44 0 twenty_items],
            answers := [''d1'', ''c'']\<rparr>"

section \<open>Properties\<close>

subsection \<open>Streamed replies\<close>

lemma emitted_append: "emitted (xs @ ys) = emitted xs @ emitted ys"
  by (induction xs rule: emitted.induct) simp_all

lemma content_ofD:
  "content_of res = Some c \<Longrightarrow>
    \<not> truthy (error res) \<and> (\<exists>m ps. message res = Some m \<and> parts m = c # ps)"
  by (auto simp: content_of_def split: if_splits option.splits list.splits)

lemma reply_event_content:
  assumes "content_of res = Some c" and "self_state w = Some st"
  shows "\<exists>w'. reply_event res p w = (Return (p + length (drop p c)), w')
       \<and> trace w' = trace w @ (if drop p c = [] then [] else [Success_end (drop p c)])
                             @ (if end_turn (the (message res)) then [Print []] else [])
       \<and> self_state w' = Some (st\<lparr>conversation_id := res_conversation_id res\<rparr>)"
proof -
  from content_ofD[OF assms(1)] obtain m ps where
    e: "\<not> truthy (error res)" and m: "message res = Some m" and ps: "parts m = c # ps" by blast
  show ?thesis
    using e m ps assms(2) by (simp add: reply_event_def Let_def emit_def)
qed

lemma reply_event_emitted:
  assumes "content_of res = Some c" and "self_state w = Some st"
  shows "\<exists>w'. reply_event res p w = (Return (p + length (drop p c)), w')
       \<and> emitted (trace w') = emitted (trace w) @ drop p c \<and> self_state w' \<noteq> None"
  using reply_event_content[OF assms, of p] by (auto simp: emitted_append)

lemma reply_loop_append:
  "reply_loop xs p w = (Return p1, w1) \<Longrightarrow> reply_loop (xs @ ys) p w = reply_loop ys p1 w1"
  by (induction xs arbitrary: p w) (auto split: prod.splits outcome.splits)

lemma reply_loop_cursor:
  assumes "\<forall>res \<in> set evs. content_of res \<noteq> None" and "self_state w \<noteq> None"
  shows "\<exists>p' w'. reply_loop evs p w = (Return p', w')
       \<and> length (emitted (trace w')) = length (emitted (trace w)) + (p' - p) \<and> p \<le> p'
       \<and> self_state w' \<noteq> None"
  using assms
proof (induction evs arbitrary: p w)
  case Nil
  then show ?case by simp
next
  case (Cons res evs)
  from Cons.prems obtain c st where c: "content_of res = Some c" and st: "self_state w = Some st"
    by auto
  from reply_event_emitted[OF c st, of p] obtain w1 where
    s: "reply_event res p w = (Return (p + length (drop p c)), w1)"
    and e: "emitted (trace w1) = emitted (trace w) @ drop p c" and n: "self_state w1 \<noteq> None"
    by blast
  from Cons.IH[of w1 "p + length (drop p c)"] Cons.prems n obtain p' w' where
    l: "reply_loop evs (p + length (drop p c)) w1 = (Return p', w')"
    and le: "length (emitted (trace w')) = length (emitted (trace w1)) + (p' - (p + length (drop p c)))"
    and pp: "p + length (drop p c) \<le> p'" and n': "self_state w' \<noteq> None"
    by auto
  show ?case using s l le pp n' e by simp
qed

lemma content_of_reply: "content_of (reply i c) = Some c"
  by (simp add: content_of_def reply_def truthy_def)

lemma chatting_state: "\<exists>st. self_state chatting = Some st"
  by (simp add: chatting_def)

text \<open>
  Claim C1. The loop of \<^verbatim>\<open>__print_reply\<close> emits exactly the new suffix of the accumulated
  text. (1) An event that carries the text \<open>c\<close>, met at cursor \<open>p\<close>, writes \<open>c[p:]\<close> and
  moves the cursor by its length. (2) In a run over events that carry text, when any event
  is reached the cursor is the number of characters written by the events before it, and
  the event writes its text from the cursor on. (3) For the texts \<open>Hello\<close> and then
  \<open>Hello, world\<close>, the second event writes \<open>, world\<close> and nothing else.
\<close>

theorem C1_reply_emits_new_suffix:
  "(content_of res = Some c \<and> self_state w = Some st \<longrightarrow>
      (\<exists>w'. reply_event res p w = (Return (p + length (drop p c)), w')
          \<and> emitted (trace w') = emitted (trace w) @ drop p c))
   \<and> ((\<forall>r \<in> set xs. content_of r \<noteq> None) \<and> content_of res = Some c \<and> self_state w = Some st \<longrightarrow>
      (\<exists>q w1 w2. reply_loop xs 0 w = (Return q, w1)
          \<and> length (emitted (trace w1)) = length (emitted (trace w)) + q
          \<and> reply_loop (xs @ [res]) 0 w = (Return (q + length (drop q c)), w2)
          \<and> emitted (trace w2) = emitted (trace w1) @ drop q c))
   \<and> (content_of r1 = Some ''Hello'' \<and> content_of r2 = Some ''Hello, world''
        \<and> self_state w = Some st \<longrightarrow>
      (\<exists>w1 w2. reply_loop [r1] 0 w = (Return 5, w1)
          \<and> reply_loop [r1, r2] 0 w = (Return 12, w2)
          \<and> trace w2 = trace w1 @ Success_end '', world''
                # (if end_turn (the (message r2)) then [Print []] else [])))"
proof (intro conjI impI)
  assume "content_of res = Some c \<and> self_state w = Some st"
  then show "\<exists>w'. reply_event res p w = (Return (p + length (drop p c)), w')
          \<and> emitted (trace w') = emitted (trace w) @ drop p c"
    using reply_event_emitted[of res c w st p] by blast
next
  assume a: "(\<forall>r \<in> set xs. content_of r \<noteq> None) \<and> content_of res = Some c \<and> self_state w = Some st"
  then obtain q w1 where
    l: "reply_loop xs 0 w = (Return q, w1)"
    and n: "length (emitted (trace w1)) = length (emitted (trace w)) + (q - 0)"
    and s: "self_state w1 \<noteq> None"
    using reply_loop_cursor[of xs w 0] by auto
  from s obtain st1 where st1: "self_state w1 = Some st1" by auto
  from a reply_event_emitted[of res c w1 st1 q] st1 obtain w2 where
    e: "reply_event res q w1 = (Return (q + length (drop q c)), w2)"
    and t: "emitted (trace w2) = emitted (trace w1) @ drop q c"
    by blast
  have "reply_loop (xs @ [res]) 0 w = (Return (q + length (drop q c)), w2)"
    using reply_loop_append[OF l, of "[res]"] e by simp
  with l n t show "\<exists>q w1 w2. reply_loop xs 0 w = (Return q, w1)
          \<and> length (emitted (trace w1)) = length (emitted (trace w)) + q
          \<and> reply_loop (xs @ [res]) 0 w = (Return (q + length (drop q c)), w2)
          \<and> emitted (trace w2) = emitted (trace w1) @ drop q c"
    by auto
next
  assume a: "content_of r1 = Some ''Hello'' \<and> content_of r2 = Some ''Hello, world''
        \<and> self_state w = Some st"
  from a reply_event_content[of r1 "''Hello''" w st 0] obtain w1 where
    e1: "reply_event r1 0 w = (Return 5, w1)"
    and s1: "self_state w1 = Some (st\<lparr>conversation_id := res_conversation_id r1\<rparr>)"
    by auto
  from a reply_event_content[OF _ s1, of r2 "''Hello, world''" 5] obtain w2 where
    e2: "reply_event r2 5 w1 = (Return 12, w2)"
    and t2: "trace w2 = trace w1 @ Success_end '', world''
                # (if end_turn (the (message r2)) then [Print []] else [])"
    by auto
  from e1 e2 t2 show "\<exists>w1 w2. reply_loop [r1] 0 w = (Return 5, w1)
          \<and> reply_loop [r1, r2] 0 w = (Return 12, w2)
          \<and> trace w2 = trace w1 @ Success_end '', world''
                # (if end_turn (the (message r2)) then [Print []] else [])"
    by simp
qed

theorem C1_reply_emits_new_suffix_witness:
  "content_of (reply ''n2'' ''Hello, world'') = Some ''Hello, world''
   \<and> content_of (reply ''n1'' ''Hello'') = Some ''Hello''
   \<and> self_state chatting \<noteq> None
   \<and> (\<exists>w1 w2. reply_loop [reply ''n1'' ''Hello''] 0 chatting = (Return 5, w1)
          \<and> reply_loop [reply ''n1'' ''Hello'', reply ''n2'' ''Hello, world''] 0 chatting = (Return 12, w2)
          \<and> trace w2 = trace w1 @ [Success_end '', world''])"
proof -
  obtain st where st: "self_state chatting = Some st" using chatting_state by blast
  show ?thesis
    using C1_reply_emits_new_suffix[of "reply ''n2'' ''Hello, world''" "''Hello, world''" chatting st 5
        "[reply ''n1'' ''Hello'']" "reply ''n1'' ''Hello''" "reply ''n2'' ''Hello, world''"] st
    by (simp add: content_of_reply) (simp add: reply_def)
qed

lemma started_defaults:
  "default_user_prompt started = 0 \<and> default_chatgpt_prompt started = 1 \<and> heap_next started = 2
   \<and> heap started 0 = \<lparr>prompt = None, parent_id = Some ''u'', message_id = ''uu''\<rparr>
   \<and> heap started (Suc 0) = \<lparr>prompt = None, parent_id = Some ''uuu'', message_id = ''uuuu''\<rparr>"
  by (simp add: started_def boot_def import_module_def ChatPrompt_init_def gen_message_id_def
      truthy_def Let_def)

text \<open>Whatever the world at import, the two default prompts are two objects; no method
  assigns to the defaults afterwards.\<close>

lemma import_module_defaults_distinct:
  "default_user_prompt (import_module w) \<noteq> default_chatgpt_prompt (import_module w)"
  by (simp add: import_module_def ChatPrompt_init_def gen_message_id_def truthy_def Let_def)

lemma chatting_self_state:
  "self_state chatting = Some \<lparr>title = Some ''New Chat'', conversation_id = None,
     model_slug = Some ''gpt'', user_prompt = 0, chatgpt_prompt = 1\<rparr>"
  by (simp add: chatting_def State_init_def started_defaults)

lemma chatting_heap: "heap chatting = heap started"
  by (simp add: chatting_def)

lemma reply_event_state:
  assumes c: "content_of res = Some c" and st: "self_state w = Some st"
    and d: "user_prompt st \<noteq> chatgpt_prompt st"
  shows "\<exists>w'. reply_event res p w = (Return (p + length (drop p c)), w')
       \<and> emitted (trace w') = emitted (trace w) @ drop p c
       \<and> self_state w' = Some (st\<lparr>conversation_id := res_conversation_id res\<rparr>)
       \<and> heap w' (chatgpt_prompt st) =
            \<lparr>prompt = Some c, parent_id = Some (message_id (heap w (user_prompt st))),
             message_id = msg_id (the (message res))\<rparr>
       \<and> heap w' (user_prompt st) = heap w (user_prompt st)"
proof -
  from content_ofD[OF c] obtain m ps where
    e: "\<not> truthy (error res)" and m: "message res = Some m" and ps: "parts m = c # ps" by blast
  show ?thesis
    using e m ps st d by (simp add: reply_event_def Let_def emit_def emitted_append)
qed

lemma reply_loop_cumulative:
  assumes "evs \<noteq> []"
    and "\<forall>r \<in> set evs. content_of r \<noteq> None"
    and "successively (\<lambda>a b. prefix (the (content_of a)) (the (content_of b))) evs"
    and "prefix c0 (the (content_of (hd evs)))"
    and "emitted (trace w) = base @ c0"
    and "self_state w = Some st"
    and "user_prompt st \<noteq> chatgpt_prompt st"
  shows "\<exists>w'. reply_loop evs (length c0) w = (Return (length (the (content_of (last evs)))), w')
       \<and> emitted (trace w') = base @ the (content_of (last evs))
       \<and> self_state w' = Some (st\<lparr>conversation_id := res_conversation_id (last evs)\<rparr>)
       \<and> heap w' (chatgpt_prompt st) =
            \<lparr>prompt = Some (the (content_of (last evs))),
             parent_id = Some (message_id (heap w (user_prompt st))),
             message_id = msg_id (the (message (last evs)))\<rparr>
       \<and> heap w' (user_prompt st) = heap w (user_prompt st)"
  using assms
proof (induction evs arbitrary: c0 w st)
  case Nil
  then show ?case by simp
next
  case (Cons res evs)
  from Cons.prems(2) obtain c where c: "content_of res = Some c" by auto
  from Cons.prems(4) c have pre: "prefix c0 c" by simp
  then obtain z where z: "c = c0 @ z" by (auto simp: prefix_def)
  from reply_event_state[OF c Cons.prems(6) Cons.prems(7), of "length c0"] obtain w1 where
    s: "reply_event res (length c0) w = (Return (length c0 + length (drop (length c0) c)), w1)"
    and e: "emitted (trace w1) = emitted (trace w) @ drop (length c0) c"
    and st1: "self_state w1 = Some (st\<lparr>conversation_id := res_conversation_id res\<rparr>)"
    and hc: "heap w1 (chatgpt_prompt st) =
            \<lparr>prompt = Some c, parent_id = Some (message_id (heap w (user_prompt st))),
             message_id = msg_id (the (message res))\<rparr>"
    and hu: "heap w1 (user_prompt st) = heap w (user_prompt st)"
    by blast
  have len: "length c0 + length (drop (length c0) c) = length c" using z by simp
  have e1: "emitted (trace w1) = base @ c" using e z Cons.prems(5) by simp
  show ?case
  proof (cases evs)
    case Nil
    with s len e1 st1 hc hu c show ?thesis by simp
  next
    case (Cons r2 rs)
    let ?st1 = "st\<lparr>conversation_id := res_conversation_id res\<rparr>"
    have ne: "evs \<noteq> []" using Cons by simp
    have a2: "\<forall>r \<in> set evs. content_of r \<noteq> None" using Cons.prems(2) by simp
    have a3: "successively (\<lambda>a b. prefix (the (content_of a)) (the (content_of b))) evs"
      using Cons.prems(3) Cons by simp
    have a4: "prefix c (the (content_of (hd evs)))" using Cons.prems(3) Cons c by simp
    have a7: "user_prompt ?st1 \<noteq> chatgpt_prompt ?st1" using Cons.prems(7) by simp
    from Cons.IH[OF ne a2 a3 a4 e1 st1 a7] obtain w' where
      l: "reply_loop evs (length c) w1 = (Return (length (the (content_of (last evs)))), w')"
      and r: "emitted (trace w') = base @ the (content_of (last evs))"
      and s': "self_state w' = Some (?st1\<lparr>conversation_id := res_conversation_id (last evs)\<rparr>)"
      and hc': "heap w' (chatgpt_prompt ?st1) =
            \<lparr>prompt = Some (the (content_of (last evs))),
             parent_id = Some (message_id (heap w1 (user_prompt ?st1))),
             message_id = msg_id (the (message (last evs)))\<rparr>"
      and hu': "heap w' (user_prompt ?st1) = heap w1 (user_prompt ?st1)"
      by blast
    from s len l r s' hc' hu' hu ne show ?thesis by simp
  qed
qed

text \<open>
  Claim C10. For a non-empty sequence of events that all carry text (no error, a message),
  each text a prefix of the next, read by \<^verbatim>\<open>__print_reply\<close> in a session whose user and
  assistant prompts are two objects: the reply returns, the pieces written are together the
  text of the last event, and afterwards the assistant prompt holds that text, its parent
  id is the message id of the user prompt, its message id is the id of the last event's
  message, and the session's conversation id is the last event's.
\<close>

theorem C10_reply_rebuilds_final_content:
  assumes "evs \<noteq> []"
    and "\<forall>r \<in> set evs. content_of r \<noteq> None"
    and "successively (\<lambda>a b. prefix (the (content_of a)) (the (content_of b))) evs"
    and "self_state w = Some st"
    and "user_prompt st \<noteq> chatgpt_prompt st"
  shows "\<exists>w' st'. print_reply evs w = (Return (), w')
       \<and> emitted (trace w') = emitted (trace w) @ the (content_of (last evs))
       \<and> self_state w' = Some st'
       \<and> conversation_id st' = res_conversation_id (last evs)
       \<and> prompt (heap w' (chatgpt_prompt st')) = Some (the (content_of (last evs)))
       \<and> parent_id (heap w' (chatgpt_prompt st')) = Some (message_id (heap w' (user_prompt st')))
       \<and> message_id (heap w' (chatgpt_prompt st')) = msg_id (the (message (last evs)))"
proof -
  from reply_loop_cumulative[OF assms(1,2,3), of "[]" w "emitted (trace w)" st] assms(4,5)
  obtain w1 where
    l: "reply_loop evs 0 w = (Return (length (the (content_of (last evs)))), w1)"
    and r: "emitted (trace w1) = emitted (trace w) @ the (content_of (last evs))"
    and s: "self_state w1 = Some (st\<lparr>conversation_id := res_conversation_id (last evs)\<rparr>)"
    and hc: "heap w1 (chatgpt_prompt st) =
            \<lparr>prompt = Some (the (content_of (last evs))),
             parent_id = Some (message_id (heap w (user_prompt st))),
             message_id = msg_id (the (message (last evs)))\<rparr>"
    and hu: "heap w1 (user_prompt st) = heap w (user_prompt st)"
    by auto
  show ?thesis
    using l r s hc hu by (simp add: print_reply_def emit_def emitted_append)
qed

theorem C10_reply_rebuilds_final_content_witness:
  "content_of (reply ''n1'' ''Hello'') \<noteq> None
   \<and> content_of (reply ''n2'' ''Hello, world'') \<noteq> None
   \<and> successively (\<lambda>a b. prefix (the (content_of a)) (the (content_of b)))
        [reply ''n1'' ''Hello'', reply ''n2'' ''Hello, world'']
   \<and> (\<exists>w' st'. print_reply [reply ''n1'' ''Hello'', reply ''n2'' ''Hello, world''] chatting
            = (Return (), w')
       \<and> emitted (trace w') = ''Hello, world''
       \<and> self_state w' = Some st'
       \<and> conversation_id st' = Some ''conv''
       \<and> prompt (heap w' (chatgpt_prompt st')) = Some ''Hello, world''
       \<and> parent_id (heap w' (chatgpt_prompt st')) = Some (message_id (heap w' (user_prompt st')))
       \<and> message_id (heap w' (chatgpt_prompt st')) = ''n2'')"
proof -
  have t: "trace chatting = []"
    by (simp add: chatting_def started_def boot_def import_module_def ChatPrompt_init_def
        gen_message_id_def truthy_def Let_def)
  have s: "successively (\<lambda>a b. prefix (the (content_of a)) (the (content_of b)))
        [reply ''n1'' ''Hello'', reply ''n2'' ''Hello, world'']"
    by (simp add: content_of_reply)
  show ?thesis
    using C10_reply_rebuilds_final_content[of "[reply ''n1'' ''Hello'', reply ''n2'' ''Hello, world'']"
        chatting, OF _ _ s chatting_self_state] t s
    by (simp add: content_of_reply) (simp add: reply_def)
qed

text \<open>
  Claim C6, as the code has it. An event whose error is a non-empty string (the test is
  Python's truth value: \<^verbatim>\<open>if result['error']\<close>) makes the loop raise an exception that
  carries the error, and the world is the one the event found: the session, its
  conversation id and the assistant prompt are untouched by that event. In a whole reply,
  the world at the exception is the world left by the events before.
\<close>

theorem C6_truthy_error_aborts:
  "(error res = Some e \<and> e \<noteq> [] \<longrightarrow> reply_event res p w = (Raise (Exception e), w))
   \<and> (error res = Some e \<and> e \<noteq> [] \<and> reply_loop xs 0 w = (Return q, w1) \<longrightarrow>
        print_reply (xs @ res # ys) w = (Raise (Exception e), w1))"
proof (intro conjI impI)
  assume "error res = Some e \<and> e \<noteq> []"
  then show "reply_event res p w = (Raise (Exception e), w)"
    by (simp add: reply_event_def truthy_def)
next
  assume a: "error res = Some e \<and> e \<noteq> [] \<and> reply_loop xs 0 w = (Return q, w1)"
  then have "reply_event res q w1 = (Raise (Exception e), w1)"
    by (simp add: reply_event_def truthy_def)
  with a show "print_reply (xs @ res # ys) w = (Raise (Exception e), w1)"
    using reply_loop_append[of xs 0 w q w1 "res # ys"] by (simp add: print_reply_def)
qed

theorem C6_truthy_error_aborts_witness:
  "error ((reply ''n2'' ''Hi!'')\<lparr>error := Some ''boom''\<rparr>) = Some ''boom''
   \<and> ''boom'' \<noteq> []
   \<and> reply_event ((reply ''n2'' ''Hi!'')\<lparr>error := Some ''boom''\<rparr>) 0 chatting
        = (Raise (Exception ''boom''), chatting)
   \<and> fst (reply_loop [reply ''n1'' ''Hi''] 0 chatting) = Return 2
   \<and> print_reply ([reply ''n1'' ''Hi''] @ (reply ''n2'' ''Hi!'')\<lparr>error := Some ''boom''\<rparr> # []) chatting
        = (Raise (Exception ''boom''), snd (reply_loop [reply ''n1'' ''Hi''] 0 chatting))"
proof -
  obtain w1 where l: "reply_loop [reply ''n1'' ''Hi''] 0 chatting = (Return 2, w1)"
    using reply_event_content[OF content_of_reply chatting_self_state, of "''n1''" "''Hi''" 0]
    by auto
  show ?thesis
    using C6_truthy_error_aborts[of "(reply ''n2'' ''Hi!'')\<lparr>error := Some ''boom''\<rparr>" "''boom''"
        0 chatting "[reply ''n1'' ''Hi'']" 2 w1 "[]"] l
    by simp
qed

text \<open>
  Claim C6 as stated fails for an error that is not null but empty: the event is treated
  as a reply, the loop goes on (cursor 2) and the assistant prompt is overwritten.
\<close>

theorem C6_empty_error_counterexample:
  "error ((reply ''n1'' ''Hi'')\<lparr>error := Some ''''\<rparr>) \<noteq> None
   \<and> fst (reply_event ((reply ''n1'' ''Hi'')\<lparr>error := Some ''''\<rparr>) 0 chatting) = Return 2
   \<and> prompt (heap chatting 1) = None
   \<and> prompt (heap (snd (reply_event ((reply ''n1'' ''Hi'')\<lparr>error := Some ''''\<rparr>) 0 chatting)) 1) = Some ''Hi''
   \<and> message_id (heap (snd (reply_event ((reply ''n1'' ''Hi'')\<lparr>error := Some ''''\<rparr>) 0 chatting)) 1) = ''n1''"
  by (simp add: reply_event_def reply_def truthy_def chatting_self_state chatting_heap
      started_defaults Let_def emit_def)

subsection \<open>Input framing\<close>

lemma get_input_loop_blank:
  "\<forall>l \<in> set pre. l \<noteq> [] \<and> hd l \<noteq> CHR ''/'' \<Longrightarrow>
    get_input_loop acc (pre @ [] # rest) = (Return (join ''\<newline>'' (acc @ pre)), rest)"
  by (induction pre arbitrary: acc) auto

lemma get_input_loop_slash:
  "\<forall>l \<in> set pre. l \<noteq> [] \<and> hd l \<noteq> CHR ''/'' \<Longrightarrow> l \<noteq> [] \<Longrightarrow> hd l = CHR ''/'' \<Longrightarrow>
    get_input_loop acc (pre @ l # rest) = (Return l, rest)"
  by (induction pre arbitrary: acc) auto

text \<open>
  Claim C9. \<^verbatim>\<open>__get_input\<close> reads lines up to the first blank line and returns them
  joined by newlines; a line that begins with \<open>/\<close>, met before the blank line, is returned
  alone and the lines read before it are dropped. Two non-empty lines (not commands) and
  a blank line give the two lines with one newline between them.
\<close>

theorem C9_input_framing:
  "((\<forall>l \<in> set pre. l \<noteq> [] \<and> hd l \<noteq> CHR ''/'') \<and> stdin w = pre @ [] # rest \<longrightarrow>
      get_input w = (Return (join ''\<newline>'' pre), w\<lparr>stdin := rest\<rparr>))
   \<and> ((\<forall>l \<in> set pre. l \<noteq> [] \<and> hd l \<noteq> CHR ''/'') \<and> cmd \<noteq> [] \<and> hd cmd = CHR ''/''
        \<and> stdin w = pre @ cmd # rest \<longrightarrow>
      get_input w = (Return cmd, w\<lparr>stdin := rest\<rparr>))
   \<and> (a \<noteq> [] \<and> hd a \<noteq> CHR ''/'' \<and> b \<noteq> [] \<and> hd b \<noteq> CHR ''/'' \<and> stdin w = a # b # [] # rest \<longrightarrow>
      get_input w = (Return (a @ ''\<newline>'' @ b), w\<lparr>stdin := rest\<rparr>))"
proof (intro conjI impI)
  assume "(\<forall>l \<in> set pre. l \<noteq> [] \<and> hd l \<noteq> CHR ''/'') \<and> stdin w = pre @ [] # rest"
  then show "get_input w = (Return (join ''\<newline>'' pre), w\<lparr>stdin := rest\<rparr>)"
    using get_input_loop_blank[of pre "[]" rest] by (simp add: get_input_def)
next
  assume "(\<forall>l \<in> set pre. l \<noteq> [] \<and> hd l \<noteq> CHR ''/'') \<and> cmd \<noteq> [] \<and> hd cmd = CHR ''/''
        \<and> stdin w = pre @ cmd # rest"
  then show "get_input w = (Return cmd, w\<lparr>stdin := rest\<rparr>)"
    using get_input_loop_slash[of pre cmd "[]" rest] by (simp add: get_input_def)
next
  assume "a \<noteq> [] \<and> hd a \<noteq> CHR ''/'' \<and> b \<noteq> [] \<and> hd b \<noteq> CHR ''/'' \<and> stdin w = a # b # [] # rest"
  then show "get_input w = (Return (a @ ''\<newline>'' @ b), w\<lparr>stdin := rest\<rparr>)"
    by (simp add: get_input_def)
qed

theorem C9_input_framing_witness:
  "stdin (chatting\<lparr>stdin := [''one'', ''two'', '''', ''next'']\<rparr>) = [''one'', ''two''] @ [] # [''next'']
   \<and> get_input (chatting\<lparr>stdin := [''one'', ''two'', '''', ''next'']\<rparr>)
       = (Return ''one\<newline>two'', chatting\<lparr>stdin := [''next'']\<rparr>)
   \<and> get_input (chatting\<lparr>stdin := [''one'', ''/new'', ''two'', '''']\<rparr>)
       = (Return ''/new'', chatting\<lparr>stdin := [''two'', '''']\<rparr>)"
proof -
  have 1: "get_input (chatting\<lparr>stdin := [''one'', ''two'', '''', ''next'']\<rparr>)
       = (Return ''one\<newline>two'', chatting\<lparr>stdin := [''next'']\<rparr>)"
    using C9_input_framing[of "[''one'', ''two'']" "chatting\<lparr>stdin := [''one'', ''two'', '''', ''next'']\<rparr>"
        "[''next'']" "''/''" "''one''" "''two''"]
    by simp
  have 2: "get_input (chatting\<lparr>stdin := [''one'', ''/new'', ''two'', '''']\<rparr>)
       = (Return ''/new'', chatting\<lparr>stdin := [''two'', '''']\<rparr>)"
    using C9_input_framing[of "[''one'']" "chatting\<lparr>stdin := [''one'', ''/new'', ''two'', '''']\<rparr>"
        "[''two'', '''']" "''/new''" "''one''" "''two''"]
    by simp
  from 1 2 show ?thesis by simp
qed

subsection \<open>The title\<close>

text \<open>
  Claim C7. Once \<^verbatim>\<open>__set_conversation_title\<close> has asked for the new title (the session
  has a conversation id): a title of 65 characters or more is refused with
  \<open>Title too long\<close>, no delegated call is made and the session is returned as it was; a
  title of at most 64 characters, so one of exactly 64, is passed to
  \<^verbatim>\<open>set_conversation_title\<close> with the conversation id, and the session takes the new
  title exactly when the call returns true.
\<close>

theorem C7_title_length:
  "(truthy (conversation_id st) \<and> answers w = t # rest \<and> 65 \<le> length t \<longrightarrow>
      set_conversation_title st w
        = (Return st, (emit [Prompt_ask ''New title'' [], Error ''#### Title too long.''] w)\<lparr>answers := rest\<rparr>))
   \<and> (truthy (conversation_id st) \<and> answers w = t # rest \<and> length t \<le> 64
        \<and> set_title_results w = ok # oks \<longrightarrow>
      set_conversation_title st w
        = (Return (if ok then st\<lparr>title := Some t\<rparr> else st),
           (emit [Prompt_ask ''New title'' [],
                  Call_set_conversation_title (the (conversation_id st)) t,
                  if ok then Debug ''#### Set title success.'' else Error ''#### Set title failed.''] w)
             \<lparr>answers := rest, set_title_results := oks\<rparr>))"
  by (simp add: set_conversation_title_def Let_def emit_def)

theorem C7_title_length_witness:
  "truthy (conversation_id (State_init None (Some ''c1'') None None None started))
   \<and> length (replicate 65 CHR ''a'') = 65
   \<and> set_conversation_title (State_init None (Some ''c1'') None None None started)
        (started\<lparr>answers := [replicate 65 CHR ''a''], set_title_results := [True]\<rparr>)
      = (Return (State_init None (Some ''c1'') None None None started),
         (emit [Prompt_ask ''New title'' [], Error ''#### Title too long.'']
            (started\<lparr>answers := [replicate 65 CHR ''a''], set_title_results := [True]\<rparr>))
           \<lparr>answers := []\<rparr>)
   \<and> length (replicate 64 CHR ''a'') = 64
   \<and> set_conversation_title (State_init None (Some ''c1'') None None None started)
        (started\<lparr>answers := [replicate 64 CHR ''a''], set_title_results := [True]\<rparr>)
      = (Return ((State_init None (Some ''c1'') None None None started)
                   \<lparr>title := Some (replicate 64 CHR ''a'')\<rparr>),
         (emit [Prompt_ask ''New title'' [],
                Call_set_conversation_title ''c1'' (replicate 64 CHR ''a''),
                Debug ''#### Set title success.'']
            (started\<lparr>answers := [replicate 64 CHR ''a''], set_title_results := [True]\<rparr>))
           \<lparr>answers := [], set_title_results := []\<rparr>)"
proof -
  have c: "conversation_id (State_init None (Some ''c1'') None None None started) = Some ''c1''"
    by (simp add: State_init_def)
  have t: "truthy (Some ''c1'')" by (simp add: truthy_def)
  show ?thesis
    using C7_title_length[of "State_init None (Some ''c1'') None None None started"
        "started\<lparr>answers := [replicate 65 CHR ''a''], set_title_results := [True]\<rparr>"
        "replicate 65 CHR ''a''" "[]" True "[]"]
      C7_title_length[of "State_init None (Some ''c1'') None None None started"
        "started\<lparr>answers := [replicate 64 CHR ''a''], set_title_results := [True]\<rparr>"
        "replicate 64 CHR ''a''" "[]" True "[]"]
      c t
    by simp
qed

subsection \<open>Command dispatch\<close>

lemma lower_char_cases:
  "lower_char c = c \<or>
   ((of_char (lower_char c) :: nat) = of_char c + 32
     \<and> ((65 \<le> (of_char c :: nat) \<and> (of_char c :: nat) \<le> 90)
      \<or> (192 \<le> (of_char c :: nat) \<and> (of_char c :: nat) \<le> 214)
      \<or> (216 \<le> (of_char c :: nat) \<and> (of_char c :: nat) \<le> 222)))"
proof (cases "lower_char c = c")
  case True
  then show ?thesis by simp
next
  case False
  then have r: "(65 \<le> (of_char c :: nat) \<and> (of_char c :: nat) \<le> 90)
      \<or> (192 \<le> (of_char c :: nat) \<and> (of_char c :: nat) \<le> 214)
      \<or> (216 \<le> (of_char c :: nat) \<and> (of_char c :: nat) \<le> 222)"
    and l: "lower_char c = char_of ((of_char c :: nat) + 32)"
    by (auto simp: lower_char_def Let_def split: if_splits)
  have "(of_char (lower_char c) :: nat) = (of_char c + 32) mod 256"
    using l by simp
  with r have "(of_char (lower_char c) :: nat) = of_char c + 32" by auto
  with r show ?thesis by blast
qed

lemma isspace_lower_char: "isspace c \<Longrightarrow> lower_char c = c"
  by (auto simp: isspace_def lower_char_def Let_def)

lemma slash_code: "(of_char CHR ''/'' :: nat) = 47"
  by code_simp

lemma lower_char_slash: "lower_char c = CHR ''/'' \<Longrightarrow> c = CHR ''/''"
  using lower_char_cases[of c] slash_code by auto

lemma dropWhile_spaces:
  "list_all isspace pre \<Longrightarrow> \<not> isspace y \<Longrightarrow> dropWhile isspace (pre @ y # ys) = y # ys"
  by (induction pre) simp_all

lemma strip_padded:
  assumes "u \<noteq> []" and "\<not> isspace (hd u)" and "\<not> isspace (last u)"
    and "list_all isspace pre" and "list_all isspace post"
  shows "strip (pre @ u @ post) = u"
proof -
  from assms(1) obtain x xs where x: "u = x # xs" by (cases u) auto
  from assms(1) obtain ys y where y: "u = ys @ [y]" by (cases u rule: rev_cases) auto
  have 1: "dropWhile isspace (pre @ u @ post) = u @ post"
    using dropWhile_spaces[OF assms(4), of x "xs @ post"] assms(2) x by simp
  have r: "list_all isspace (rev post)" using assms(5) by (simp add: list_all_iff)
  have 2: "dropWhile isspace (rev post @ rev u) = rev u"
    using dropWhile_spaces[OF r, of y "rev ys"] assms(3) y by simp
  show ?thesis by (simp add: strip_def 1 2)
qed

lemma table_shapes:
  "list_all (\<lambda>(al, act). al \<noteq> [] \<and> hd al = CHR ''/'' \<and> \<not> isspace (last al) \<and> dispatch al = act)
     spec_dispatch_table"
  by code_simp

lemma table_entry:
  "(al, act) \<in> set spec_dispatch_table \<Longrightarrow>
     al \<noteq> [] \<and> hd al = CHR ''/'' \<and> \<not> isspace (last al) \<and> dispatch al = act"
  using table_shapes by (auto simp: list_all_iff)

lemma lowered_shape:
  assumes "lower u = al" and "al \<noteq> []" and "hd al = CHR ''/''" and "\<not> isspace (last al)"
  shows "u \<noteq> [] \<and> hd u = CHR ''/'' \<and> \<not> isspace (hd u) \<and> \<not> isspace (last u)"
proof -
  from assms(1,2) have ne: "u \<noteq> []" by (auto simp: lower_def)
  from assms(1,3) ne have h: "hd u = CHR ''/''"
    by (cases u) (auto simp: lower_def lower_char_slash)
  have "last (lower u) = lower_char (last u)"
    using ne by (simp add: lower_def last_map)
  with assms(1,4) have l: "\<not> isspace (last u)" using isspace_lower_char[of "last u"] by auto
  have "\<not> isspace CHR ''/''" by code_simp
  with ne h l show ?thesis by simp
qed

lemma process_command_padded:
  assumes t: "(al, act) \<in> set spec_dispatch_table" and l: "lower u = al"
    and "list_all isspace pre" and "list_all isspace post"
  shows "process_command (pre @ u @ post) = act"
proof -
  from table_entry[OF t] lowered_shape[OF l] have
    "u \<noteq> []" "\<not> isspace (hd u)" "\<not> isspace (last u)" by auto
  from strip_padded[OF this assms(3,4)] have "lower (strip (pre @ u @ post)) = al"
    using l by simp
  then show ?thesis using table_entry[OF t] by (simp add: process_command_def)
qed

lemma slash_unit:
  assumes t: "(al, act) \<in> set spec_dispatch_table" and l: "lower u = al"
  shows "u @ post \<noteq> [] \<and> hd (u @ post) = CHR ''/''"
  using table_entry[OF t] lowered_shape[OF l] by auto

text \<open>
  Claim C3, as the code has it. The dispatcher strips and lowers the command before it
  compares, but \<^verbatim>\<open>__talk_loop\<close> hands it only an input unit whose first character is
  \<open>/\<close>. For every alias of the table, written in any case: between blanks on both sides
  \<^verbatim>\<open>__process_command\<close> takes the alias's branch, and as an input unit, with blanks after
  it only, the talk loop dispatches it to that branch. \<^verbatim>\<open>__process_command\<close> on
  \<open>"  /QUIT  "\<close> raises the exit signal, and the input unit \<open>"/QUIT  "\<close> does.
\<close>

theorem C3_dispatch_of_slash_units:
  "((al, act) \<in> set spec_dispatch_table \<and> lower u = al
      \<and> list_all isspace pre \<and> list_all isspace post \<longrightarrow>
        process_command (pre @ u @ post) = act
        \<and> talk_loop_turn (u @ post) = Command act)
   \<and> process_command ''  /QUIT  '' = Raise_KeyboardInterrupt
   \<and> talk_loop_turn ''/QUIT  '' = Command Raise_KeyboardInterrupt"
proof -
  have general: "process_command (pre @ u @ post) = act \<and> talk_loop_turn (u @ post) = Command act"
    if a: "(al, act) \<in> set spec_dispatch_table" "lower u = al"
      "list_all isspace pre" "list_all isspace post"
    for al act u pre post
  proof -
    have 1: "process_command (pre @ u @ post) = act"
      using process_command_padded[OF a] .
    have "process_command ([] @ u @ post) = act"
      using process_command_padded[OF a(1,2) _ a(4), of "[]"] by simp
    then have 2: "talk_loop_turn (u @ post) = Command act"
      using slash_unit[OF a(1,2), of post] by (simp add: talk_loop_turn_def)
    from 1 2 show ?thesis by simp
  qed
  have q: "(''/quit'', Raise_KeyboardInterrupt) \<in> set spec_dispatch_table"
    by (simp add: spec_dispatch_table_def)
  have lq: "lower ''/QUIT'' = ''/quit''" by code_simp
  have sp: "list_all isspace ''  ''" by code_simp
  have e: "list_all isspace []" by simp
  have g: "(al, act) \<in> set spec_dispatch_table \<and> lower u = al
      \<and> list_all isspace pre \<and> list_all isspace post \<longrightarrow>
        process_command (pre @ u @ post) = act
        \<and> talk_loop_turn (u @ post) = Command act"
    using general[of al act u pre post] by blast
  from general[OF q lq sp sp] general[OF q lq e sp] g show ?thesis by simp
qed

theorem C3_dispatch_of_slash_units_witness:
  "(''/quit'', Raise_KeyboardInterrupt) \<in> set spec_dispatch_table
   \<and> lower ''/Quit'' = ''/quit''
   \<and> list_all isspace '' ''
   \<and> process_command ('' '' @ ''/Quit'' @ '' '') = Raise_KeyboardInterrupt
   \<and> talk_loop_turn (''/Quit'' @ '' '') = Command Raise_KeyboardInterrupt"
proof -
  have q: "(''/quit'', Raise_KeyboardInterrupt) \<in> set spec_dispatch_table"
    by (simp add: spec_dispatch_table_def)
  have lq: "lower ''/Quit'' = ''/quit''" by code_simp
  have sp: "list_all isspace '' ''" by code_simp
  show ?thesis
    using C3_dispatch_of_slash_units[of "''/quit''" Raise_KeyboardInterrupt "''/Quit''" "'' ''" "'' ''"]
      q lq sp
    by simp
qed

text \<open>
  Claim C3 as stated fails for blanks in front: the input unit \<open>"  /QUIT  "\<close> does not
  begin with \<open>/\<close>, so the talk loop sends it to \<^verbatim>\<open>__talk\<close> as a message, also when it
  is read from the console.
\<close>

theorem C3_leading_blank_counterexample:
  "talk_loop_turn ''  /QUIT  '' = Talk ''  /QUIT  ''
   \<and> fst (talk_loop_round (chatting\<lparr>stdin := [''  /QUIT  '', '''']\<rparr>)) = Return (Talk ''  /QUIT  '')"
  by (simp add: talk_loop_turn_def talk_loop_round_def get_input_def emit_def)

subsection \<open>Loading a conversation\<close>

lemma walk_leads: "leads m i up \<Longrightarrow> walk m i acc = Some (Inr (rev up @ acc))"
proof (induction up arbitrary: i acc)
  case Nil
  then show ?case by (subst walk.simps) (auto split: option.splits)
next
  case (Cons n up)
  then have "walk m (the (parent n)) (n # acc) = Some (Inr (rev up @ n # acc))" by simp
  with Cons.prems show ?case by (subst walk.simps) simp
qed

lemma replay_node_replayable:
  assumes "replayable n" and "self_state w = Some st"
  shows "replay_node n w =
    (Return (),
     w\<lparr>self_state := Some (case node_slug n of None \<Rightarrow> st | Some s \<Rightarrow> st\<lparr>model_slug := Some s\<rparr>),
       heap := (heap w)((if by_user n then user_prompt st else chatgpt_prompt st) := seeded n),
       trace := trace w @ shown n\<rparr>)"
  using assms
  by (auto simp: replayable_def node_role_def node_text_def node_slug_def by_user_def seeded_def
      shown_def replay_node_def emit_def Let_def split: option.splits list.splits)

lemma replay_snoc:
  "replay (ns @ [n]) w =
    (case replay ns w of
       (Return u, w') \<Rightarrow> replay_node n w'
     | (Raise e, w') \<Rightarrow> (Raise e, w')
     | (Run, w') \<Rightarrow> (Run, w'))"
  by (induction ns arbitrary: w) (auto split: prod.splits outcome.splits)

lemma replay_replayable:
  assumes "\<forall>n \<in> set ns. replayable n" and "self_state w = Some st"
    and "user_prompt st \<noteq> chatgpt_prompt st"
  shows "\<exists>w'. replay ns w = (Return (), w')
     \<and> trace w' = trace w @ concat (map shown ns)
     \<and> self_state w' = Some (st\<lparr>model_slug :=
          (case find (\<lambda>n. node_slug n \<noteq> None) (rev ns) of
             None \<Rightarrow> model_slug st | Some n \<Rightarrow> node_slug n)\<rparr>)
     \<and> heap w' (user_prompt st) =
          (case find by_user (rev ns) of None \<Rightarrow> heap w (user_prompt st) | Some n \<Rightarrow> seeded n)
     \<and> heap w' (chatgpt_prompt st) =
          (case find (\<lambda>n. \<not> by_user n) (rev ns) of
             None \<Rightarrow> heap w (chatgpt_prompt st) | Some n \<Rightarrow> seeded n)"
  using assms
proof (induction ns rule: rev_induct)
  case Nil
  then show ?case by simp
next
  case (snoc n ns)
  then obtain w1 where r: "replay ns w = (Return (), w1)"
    and t: "trace w1 = trace w @ concat (map shown ns)"
    and s: "self_state w1 = Some (st\<lparr>model_slug :=
          (case find (\<lambda>n. node_slug n \<noteq> None) (rev ns) of
             None \<Rightarrow> model_slug st | Some n \<Rightarrow> node_slug n)\<rparr>)"
    and hu: "heap w1 (user_prompt st) =
          (case find by_user (rev ns) of None \<Rightarrow> heap w (user_prompt st) | Some n \<Rightarrow> seeded n)"
    and hc: "heap w1 (chatgpt_prompt st) =
          (case find (\<lambda>n. \<not> by_user n) (rev ns) of
             None \<Rightarrow> heap w (chatgpt_prompt st) | Some n \<Rightarrow> seeded n)"
    by auto
  from snoc.prems have rn: "replayable n" by simp
  show ?case
    using r t s hu hc snoc.prems(3)
    by (auto simp: replay_snoc replay_node_replayable[OF rn s] split: option.splits)
qed

lemma load_conversation_chain:
  assumes c: "truthy cid" and r: "conversations w = res # rest"
    and l: "leads (mapping res) (current_node res) up"
    and p: "\<forall>n \<in> set up. replayable n"
    and d: "default_user_prompt w \<noteq> default_chatgpt_prompt w"
  shows "\<exists>w'. load_conversation cid w = Some (Return (), w')
     \<and> trace w' = trace w @ [Call_get_conversation (the cid),
                    Info_bh (''==================== '' @ conv_title res @ '' ====================''),
                    Debug_h ''Double enter to send. Type /? for help.'']
                  @ concat (map shown (rev up))
     \<and> self_state w' = Some \<lparr>title = Some (conv_title res), conversation_id = cid,
          model_slug = (case find (\<lambda>n. node_slug n \<noteq> None) up of
                          None \<Rightarrow> None | Some n \<Rightarrow> node_slug n),
          user_prompt = default_user_prompt w, chatgpt_prompt = default_chatgpt_prompt w\<rparr>
     \<and> heap w' (default_user_prompt w) =
          (case find by_user up of None \<Rightarrow> heap w (default_user_prompt w) | Some n \<Rightarrow> seeded n)
     \<and> heap w' (default_chatgpt_prompt w) =
          (case find (\<lambda>n. \<not> by_user n) up of
             None \<Rightarrow> heap w (default_chatgpt_prompt w) | Some n \<Rightarrow> seeded n)"
proof -
  let ?st = "\<lparr>title = Some (conv_title res), conversation_id = cid, model_slug = None,
          user_prompt = default_user_prompt w, chatgpt_prompt = default_chatgpt_prompt w\<rparr>"
  let ?w5 = "print_conversation_title (conv_title res)
      ((emit [Call_get_conversation (the cid)]
          (w\<lparr>self_state := Some (State_init None cid None None None w)\<rparr>))
        \<lparr>conversations := rest, self_state := Some ?st\<rparr>)"
  have e: "load_conversation cid w = Some (replay (rev up) ?w5)"
    using c r walk_leads[OF l, of "[]"]
    by (simp add: load_conversation_def Let_def emit_def State_init_def print_conversation_title_def)
  have s5: "self_state ?w5 = Some ?st"
    by (simp add: print_conversation_title_def emit_def)
  have p': "\<forall>n \<in> set (rev up). replayable n" using p by simp
  have d': "user_prompt ?st \<noteq> chatgpt_prompt ?st" using d by simp
  have t5: "trace ?w5 = trace w @ [Call_get_conversation (the cid),
                    Info_bh (''==================== '' @ conv_title res @ '' ====================''),
                    Debug_h ''Double enter to send. Type /? for help.'']"
    by (simp add: print_conversation_title_def emit_def)
  have h5: "heap ?w5 = heap w"
    by (simp add: print_conversation_title_def emit_def)
  from replay_replayable[OF p' s5 d'] obtain w' where
    1: "replay (rev up) ?w5 = (Return (), w')"
    and 2: "trace w' = trace ?w5 @ concat (map shown (rev up))"
    and 3: "self_state w' = Some (?st\<lparr>model_slug :=
          (case find (\<lambda>n. node_slug n \<noteq> None) (rev (rev up)) of
             None \<Rightarrow> model_slug ?st | Some n \<Rightarrow> node_slug n)\<rparr>)"
    and 4: "heap w' (user_prompt ?st) =
          (case find by_user (rev (rev up)) of None \<Rightarrow> heap ?w5 (user_prompt ?st) | Some n \<Rightarrow> seeded n)"
    and 5: "heap w' (chatgpt_prompt ?st) =
          (case find (\<lambda>n. \<not> by_user n) (rev (rev up)) of
             None \<Rightarrow> heap ?w5 (chatgpt_prompt ?st) | Some n \<Rightarrow> seeded n)"
    by blast
  have a: "load_conversation cid w = Some (Return (), w')" using e 1 by simp
  have b: "trace w' = trace w @ [Call_get_conversation (the cid),
                    Info_bh (''==================== '' @ conv_title res @ '' ====================''),
                    Debug_h ''Double enter to send. Type /? for help.'']
                  @ concat (map shown (rev up))"
    using 2 t5 by simp
  have c': "self_state w' = Some \<lparr>title = Some (conv_title res), conversation_id = cid,
          model_slug = (case find (\<lambda>n. node_slug n \<noteq> None) up of
                          None \<Rightarrow> None | Some n \<Rightarrow> node_slug n),
          user_prompt = default_user_prompt w, chatgpt_prompt = default_chatgpt_prompt w\<rparr>"
    using 3 by (simp split: option.splits)
  have d1: "heap w' (default_user_prompt w) =
          (case find by_user up of None \<Rightarrow> heap w (default_user_prompt w) | Some n \<Rightarrow> seeded n)"
    using 4 h5 by (simp cong: option.case_cong)
  have d2: "heap w' (default_chatgpt_prompt w) =
          (case find (\<lambda>n. \<not> by_user n) up of
             None \<Rightarrow> heap w (default_chatgpt_prompt w) | Some n \<Rightarrow> seeded n)"
    using 5 h5 by (simp cong: option.case_cong)
  from a b c' d1 d2 show ?thesis by blast
qed

lemma greetings_leads: "leads (mapping greetings) (current_node greetings) [node_B, node_A]"
  by (simp add: greetings_def node_A_def node_B_def node_R_def truthy_def)

lemma greetings_nodes:
  "replayable node_A \<and> by_user node_A \<and> replayable node_B \<and> \<not> by_user node_B
   \<and> node_slug node_B = Some ''gpt-4''
   \<and> seeded node_A = \<lparr>prompt = Some ''Hi'', parent_id = Some ''R'', message_id = ''A''\<rparr>
   \<and> seeded node_B = \<lparr>prompt = Some ''Hello!'', parent_id = Some ''A'', message_id = ''B''\<rparr>
   \<and> shown node_A = [Info_b ''You:'', Info ''Hi'', Print []]
   \<and> shown node_B = [Success_b ''ChatGPT:'', Success ''Hello!'', Print []]"
  by (simp add: node_A_def node_B_def replayable_def by_user_def node_role_def node_text_def
      node_slug_def seeded_def shown_def)

lemma started_trace: "trace started = []"
  by (simp add: started_def boot_def import_module_def ChatPrompt_init_def
      gen_message_id_def truthy_def Let_def)

text \<open>
  Claim C8. \<^verbatim>\<open>__load_conversation\<close> walks the parents from \<open>current_node\<close> to the root and
  replays the nodes below the root in forward order; the session's user prompt is seeded
  from the last node of role \<open>user\<close>, the assistant prompt from the last other node, and
  the model slug is the last one found in a message's metadata. For the chain
  \<open>root -> A (user) -> B (assistant)\<close> with current node \<open>B\<close>: the replay shows \<open>A\<close> then
  \<open>B\<close>, the user prompt holds the text, parent and id of \<open>A\<close>, the assistant prompt those
  of \<open>B\<close>, and the model slug is the one of \<open>B\<close>'s metadata, else of \<open>A\<close>'s.
\<close>

theorem C8_load_walks_chain_and_seeds:
  "(truthy cid \<and> conversations w = res # rest
      \<and> leads (mapping res) (current_node res) up \<and> (\<forall>n \<in> set up. replayable n)
      \<and> default_user_prompt w \<noteq> default_chatgpt_prompt w \<longrightarrow>
    (\<exists>w'. load_conversation cid w = Some (Return (), w')
     \<and> trace w' = trace w @ [Call_get_conversation (the cid),
                    Info_bh (''==================== '' @ conv_title res @ '' ====================''),
                    Debug_h ''Double enter to send. Type /? for help.'']
                  @ concat (map shown (rev up))
     \<and> self_state w' = Some \<lparr>title = Some (conv_title res), conversation_id = cid,
          model_slug = (case find (\<lambda>n. node_slug n \<noteq> None) up of
                          None \<Rightarrow> None | Some n \<Rightarrow> node_slug n),
          user_prompt = default_user_prompt w, chatgpt_prompt = default_chatgpt_prompt w\<rparr>
     \<and> heap w' (default_user_prompt w) =
          (case find by_user up of None \<Rightarrow> heap w (default_user_prompt w) | Some n \<Rightarrow> seeded n)
     \<and> heap w' (default_chatgpt_prompt w) =
          (case find (\<lambda>n. \<not> by_user n) up of
             None \<Rightarrow> heap w (default_chatgpt_prompt w) | Some n \<Rightarrow> seeded n)))
   \<and> (truthy cid \<and> conversations w = res # rest
      \<and> leads (mapping res) (current_node res) [b, a]
      \<and> replayable a \<and> by_user a \<and> replayable b \<and> \<not> by_user b
      \<and> default_user_prompt w \<noteq> default_chatgpt_prompt w \<longrightarrow>
    (\<exists>w' st'. load_conversation cid w = Some (Return (), w')
     \<and> trace w' = trace w @ [Call_get_conversation (the cid),
                    Info_bh (''==================== '' @ conv_title res @ '' ====================''),
                    Debug_h ''Double enter to send. Type /? for help.'']
                  @ shown a @ shown b
     \<and> self_state w' = Some st'
     \<and> title st' = Some (conv_title res) \<and> conversation_id st' = cid
     \<and> model_slug st' = (case node_slug b of Some s \<Rightarrow> Some s | None \<Rightarrow> node_slug a)
     \<and> heap w' (user_prompt st') = seeded a
     \<and> heap w' (chatgpt_prompt st') = seeded b))"
proof (intro conjI impI)
  assume "truthy cid \<and> conversations w = res # rest
      \<and> leads (mapping res) (current_node res) up \<and> (\<forall>n \<in> set up. replayable n)
      \<and> default_user_prompt w \<noteq> default_chatgpt_prompt w"
  then show "\<exists>w'. load_conversation cid w = Some (Return (), w')
     \<and> trace w' = trace w @ [Call_get_conversation (the cid),
                    Info_bh (''==================== '' @ conv_title res @ '' ====================''),
                    Debug_h ''Double enter to send. Type /? for help.'']
                  @ concat (map shown (rev up))
     \<and> self_state w' = Some \<lparr>title = Some (conv_title res), conversation_id = cid,
          model_slug = (case find (\<lambda>n. node_slug n \<noteq> None) up of
                          None \<Rightarrow> None | Some n \<Rightarrow> node_slug n),
          user_prompt = default_user_prompt w, chatgpt_prompt = default_chatgpt_prompt w\<rparr>
     \<and> heap w' (default_user_prompt w) =
          (case find by_user up of None \<Rightarrow> heap w (default_user_prompt w) | Some n \<Rightarrow> seeded n)
     \<and> heap w' (default_chatgpt_prompt w) =
          (case find (\<lambda>n. \<not> by_user n) up of
             None \<Rightarrow> heap w (default_chatgpt_prompt w) | Some n \<Rightarrow> seeded n)"
    using load_conversation_chain[of cid w res rest up] by blast
next
  assume a: "truthy cid \<and> conversations w = res # rest
      \<and> leads (mapping res) (current_node res) [b, a]
      \<and> replayable a \<and> by_user a \<and> replayable b \<and> \<not> by_user b
      \<and> default_user_prompt w \<noteq> default_chatgpt_prompt w"
  then have p: "\<forall>n \<in> set [b, a]. replayable n" by simp
  from a load_conversation_chain[of cid w res rest "[b, a]", OF _ _ _ p] obtain w' where
    1: "load_conversation cid w = Some (Return (), w')"
    and 2: "trace w' = trace w @ [Call_get_conversation (the cid),
                    Info_bh (''==================== '' @ conv_title res @ '' ====================''),
                    Debug_h ''Double enter to send. Type /? for help.'']
                  @ concat (map shown (rev [b, a]))"
    and 3: "self_state w' = Some \<lparr>title = Some (conv_title res), conversation_id = cid,
          model_slug = (case find (\<lambda>n. node_slug n \<noteq> None) [b, a] of
                          None \<Rightarrow> None | Some n \<Rightarrow> node_slug n),
          user_prompt = default_user_prompt w, chatgpt_prompt = default_chatgpt_prompt w\<rparr>"
    and 4: "heap w' (default_user_prompt w) =
          (case find by_user [b, a] of None \<Rightarrow> heap w (default_user_prompt w) | Some n \<Rightarrow> seeded n)"
    and 5: "heap w' (default_chatgpt_prompt w) =
          (case find (\<lambda>n. \<not> by_user n) [b, a] of
             None \<Rightarrow> heap w (default_chatgpt_prompt w) | Some n \<Rightarrow> seeded n)"
    by blast
  let ?st = "\<lparr>title = Some (conv_title res), conversation_id = cid,
          model_slug = (case find (\<lambda>n. node_slug n \<noteq> None) [b, a] of
                          None \<Rightarrow> None | Some n \<Rightarrow> node_slug n),
          user_prompt = default_user_prompt w, chatgpt_prompt = default_chatgpt_prompt w\<rparr>"
  have m: "model_slug ?st = (case node_slug b of Some s \<Rightarrow> Some s | None \<Rightarrow> node_slug a)"
    by (auto split: option.splits)
  have t: "trace w' = trace w @ [Call_get_conversation (the cid),
                    Info_bh (''==================== '' @ conv_title res @ '' ====================''),
                    Debug_h ''Double enter to send. Type /? for help.'']
                  @ shown a @ shown b"
    using 2 by simp
  have u: "heap w' (user_prompt ?st) = seeded a" using 4 a by simp
  have c: "heap w' (chatgpt_prompt ?st) = seeded b" using 5 a by simp
  have "load_conversation cid w = Some (Return (), w')
     \<and> trace w' = trace w @ [Call_get_conversation (the cid),
                    Info_bh (''==================== '' @ conv_title res @ '' ====================''),
                    Debug_h ''Double enter to send. Type /? for help.'']
                  @ shown a @ shown b
     \<and> self_state w' = Some ?st
     \<and> title ?st = Some (conv_title res) \<and> conversation_id ?st = cid
     \<and> model_slug ?st = (case node_slug b of Some s \<Rightarrow> Some s | None \<Rightarrow> node_slug a)
     \<and> heap w' (user_prompt ?st) = seeded a
     \<and> heap w' (chatgpt_prompt ?st) = seeded b"
    using 1 t 3 m u c by simp
  then show "\<exists>w' st'. load_conversation cid w = Some (Return (), w')
     \<and> trace w' = trace w @ [Call_get_conversation (the cid),
                    Info_bh (''==================== '' @ conv_title res @ '' ====================''),
                    Debug_h ''Double enter to send. Type /? for help.'']
                  @ shown a @ shown b
     \<and> self_state w' = Some st'
     \<and> title st' = Some (conv_title res) \<and> conversation_id st' = cid
     \<and> model_slug st' = (case node_slug b of Some s \<Rightarrow> Some s | None \<Rightarrow> node_slug a)
     \<and> heap w' (user_prompt st') = seeded a
     \<and> heap w' (chatgpt_prompt st') = seeded b"
    by blast
qed

theorem C8_load_walks_chain_and_seeds_witness:
  "truthy (Some ''c1'')
   \<and> conversations (started\<lparr>conversations := [greetings]\<rparr>) = greetings # []
   \<and> leads (mapping greetings) (current_node greetings) [node_B, node_A]
   \<and> replayable node_A \<and> by_user node_A \<and> replayable node_B \<and> \<not> by_user node_B
   \<and> default_user_prompt (started\<lparr>conversations := [greetings]\<rparr>)
       \<noteq> default_chatgpt_prompt (started\<lparr>conversations := [greetings]\<rparr>)
   \<and> (\<exists>w' st'. load_conversation (Some ''c1'') (started\<lparr>conversations := [greetings]\<rparr>)
          = Some (Return (), w')
     \<and> trace w' = [Call_get_conversation ''c1'',
                    Info_bh ''==================== Greetings ===================='',
                    Debug_h ''Double enter to send. Type /? for help.'',
                    Info_b ''You:'', Info ''Hi'', Print [],
                    Success_b ''ChatGPT:'', Success ''Hello!'', Print []]
     \<and> self_state w' = Some st'
     \<and> title st' = Some ''Greetings'' \<and> conversation_id st' = Some ''c1''
     \<and> model_slug st' = Some ''gpt-4''
     \<and> heap w' (user_prompt st') = \<lparr>prompt = Some ''Hi'', parent_id = Some ''R'', message_id = ''A''\<rparr>
     \<and> heap w' (chatgpt_prompt st')
         = \<lparr>prompt = Some ''Hello!'', parent_id = Some ''A'', message_id = ''B''\<rparr>)"
proof -
  have t: "truthy (Some ''c1'')" by (simp add: truthy_def)
  have g: "conv_title greetings = ''Greetings''" by (simp add: greetings_def)
  show ?thesis
    using C8_load_walks_chain_and_seeds[of "Some ''c1''" "started\<lparr>conversations := [greetings]\<rparr>"
        greetings "[]" "[node_B, node_A]" node_B node_A]
      t g greetings_leads greetings_nodes started_defaults started_trace
    by simp
qed

subsection \<open>The default prompts of a session\<close>

lemma replay_node_defaults:
  "replay_node n w = (r, w') \<Longrightarrow>
     default_user_prompt w' = default_user_prompt w
     \<and> default_chatgpt_prompt w' = default_chatgpt_prompt w"
  by (auto simp: replay_node_def emit_def Let_def split: option.splits list.splits)

lemma replay_defaults:
  "replay ns w = (r, w') \<Longrightarrow>
     default_user_prompt w' = default_user_prompt w
     \<and> default_chatgpt_prompt w' = default_chatgpt_prompt w"
proof (induction ns arbitrary: w)
  case Nil
  then show ?case by simp
next
  case (Cons n ns)
  obtain r1 w1 where n: "replay_node n w = (r1, w1)" by (cases "replay_node n w") auto
  from replay_node_defaults[OF n] Cons n show ?case
    by (cases r1) (auto simp del: replay_node_defaults)
qed

lemma load_conversation_defaults:
  "load_conversation cid w = Some (r, w') \<Longrightarrow>
     default_user_prompt w' = default_user_prompt w
     \<and> default_chatgpt_prompt w' = default_chatgpt_prompt w"
  by (auto simp: load_conversation_def Let_def emit_def print_conversation_title_def
      split: if_splits list.splits option.splits sum.splits dest!: replay_defaults)

text \<open>
  Claim C2 does not hold of the code. The two defaults \<^verbatim>\<open>ChatPrompt()\<close> of
  \<^verbatim>\<open>State.__init__\<close> are evaluated once, so every session constructed without prompts
  refers to the same two objects. After the conversation \<open>R -> A -> B\<close> has been loaded,
  the session of a new chat (\<^verbatim>\<open>State(model_slug=...)\<close>, no conversation id) has the
  prompts of the loaded one: its user prompt holds \<open>A\<close> and its assistant prompt holds \<open>B\<close>.
\<close>

theorem C2_sessions_share_default_prompts:
  "user_prompt (State_init t1 c1 s1 None None w) = user_prompt (State_init t2 c2 s2 None None w)
   \<and> chatgpt_prompt (State_init t1 c1 s1 None None w) = chatgpt_prompt (State_init t2 c2 s2 None None w)
   \<and> (\<exists>w1 st1 st2.
        load_conversation (Some ''c1'') (started\<lparr>conversations := [greetings]\<rparr>) = Some (Return (), w1)
        \<and> self_state w1 = Some st1 \<and> conversation_id st1 = Some ''c1''
        \<and> self_state (new_conversation ''gpt'' w1) = Some st2 \<and> conversation_id st2 = None
        \<and> user_prompt st2 = user_prompt st1 \<and> chatgpt_prompt st2 = chatgpt_prompt st1
        \<and> heap (new_conversation ''gpt'' w1) (user_prompt st2)
            = \<lparr>prompt = Some ''Hi'', parent_id = Some ''R'', message_id = ''A''\<rparr>
        \<and> heap (new_conversation ''gpt'' w1) (chatgpt_prompt st2)
            = \<lparr>prompt = Some ''Hello!'', parent_id = Some ''A'', message_id = ''B''\<rparr>)"
proof -
  let ?w = "started\<lparr>conversations := [greetings]\<rparr>"
  have t: "truthy (Some ''c1'')" by (simp add: truthy_def)
  have p: "\<forall>n \<in> set [node_B, node_A]. replayable n" using greetings_nodes by simp
  have d: "default_user_prompt ?w \<noteq> default_chatgpt_prompt ?w" by (simp add: started_defaults)
  from load_conversation_chain[OF t _ greetings_leads p d, of "[]"] obtain w1 where
    1: "load_conversation (Some ''c1'') ?w = Some (Return (), w1)"
    and 3: "self_state w1 = Some \<lparr>title = Some (conv_title greetings), conversation_id = Some ''c1'',
          model_slug = (case find (\<lambda>n. node_slug n \<noteq> None) [node_B, node_A] of
                          None \<Rightarrow> None | Some n \<Rightarrow> node_slug n),
          user_prompt = default_user_prompt ?w, chatgpt_prompt = default_chatgpt_prompt ?w\<rparr>"
    and 4: "heap w1 (default_user_prompt ?w) =
          (case find by_user [node_B, node_A] of
             None \<Rightarrow> heap ?w (default_user_prompt ?w) | Some n \<Rightarrow> seeded n)"
    and 5: "heap w1 (default_chatgpt_prompt ?w) =
          (case find (\<lambda>n. \<not> by_user n) [node_B, node_A] of
             None \<Rightarrow> heap ?w (default_chatgpt_prompt ?w) | Some n \<Rightarrow> seeded n)"
    by auto
  from load_conversation_defaults[OF 1] have
    6: "default_user_prompt w1 = default_user_prompt ?w"
      "default_chatgpt_prompt w1 = default_chatgpt_prompt ?w" by simp_all
  have n: "self_state (new_conversation ''gpt'' w1)
      = Some \<lparr>title = Some ''New Chat'', conversation_id = None, model_slug = Some ''gpt'',
          user_prompt = default_user_prompt ?w, chatgpt_prompt = default_chatgpt_prompt ?w\<rparr>"
    using 6 by (simp add: new_conversation_def State_init_def print_conversation_title_def
        emit_def Let_def)
  have h: "heap (new_conversation ''gpt'' w1) = heap w1"
    by (simp add: new_conversation_def print_conversation_title_def emit_def Let_def)
  have u: "heap w1 (default_user_prompt ?w)
      = \<lparr>prompt = Some ''Hi'', parent_id = Some ''R'', message_id = ''A''\<rparr>"
    using 4 greetings_nodes by simp
  have c: "heap w1 (default_chatgpt_prompt ?w)
      = \<lparr>prompt = Some ''Hello!'', parent_id = Some ''A'', message_id = ''B''\<rparr>"
    using 5 greetings_nodes by simp
  have shared: "user_prompt (State_init t1 c1 s1 None None w) = user_prompt (State_init t2 c2 s2 None None w)
   \<and> chatgpt_prompt (State_init t1 c1 s1 None None w) = chatgpt_prompt (State_init t2 c2 s2 None None w)"
    by (simp add: State_init_def)
  from 1 3 n h u c have "\<exists>w1 st1 st2.
        load_conversation (Some ''c1'') ?w = Some (Return (), w1)
        \<and> self_state w1 = Some st1 \<and> conversation_id st1 = Some ''c1''
        \<and> self_state (new_conversation ''gpt'' w1) = Some st2 \<and> conversation_id st2 = None
        \<and> user_prompt st2 = user_prompt st1 \<and> chatgpt_prompt st2 = chatgpt_prompt st1
        \<and> heap (new_conversation ''gpt'' w1) (user_prompt st2)
            = \<lparr>prompt = Some ''Hi'', parent_id = Some ''R'', message_id = ''A''\<rparr>
        \<and> heap (new_conversation ''gpt'' w1) (chatgpt_prompt st2)
            = \<lparr>prompt = Some ''Hello!'', parent_id = Some ''A'', message_id = ''B''\<rparr>"
    by (intro exI[of _ w1]) simp
  with shared show ?thesis by blast
qed

subsection \<open>The conversation selector\<close>

lemma digit_char: "(d::nat) < 10 \<Longrightarrow> is_digit (char_of (48 + d))"
  by (simp add: is_digit_def)

lemma str_nat_digits: "str_nat n \<noteq> [] \<and> list_all is_digit (str_nat n)"
proof (induction n rule: str_nat.induct)
  case (1 n)
  show ?case
  proof (cases "n < 10")
    case True
    then have "str_nat n = [char_of (48 + n)]" by (subst str_nat.simps) simp
    with True show ?thesis by (simp add: digit_char)
  next
    case False
    with 1 have i: "str_nat (n div 10) \<noteq> [] \<and> list_all is_digit (str_nat (n div 10))" by simp
    have d: "is_digit (char_of (48 + n mod 10))" by (rule digit_char) simp
    from False have "str_nat n = str_nat (n div 10) @ [char_of (48 + n mod 10)]"
      by (subst str_nat.simps) simp
    with i d show ?thesis by simp
  qed
qed

lemma number_digits:
  "str (int idx + 1) \<noteq> [] \<and> list_all is_digit (str (int idx + 1))"
  using str_nat_digits[of "nat (int idx + 1)"] by (simp add: str_def)

lemma not_digits: "\<not> is_digit CHR ''n'' \<and> \<not> is_digit CHR ''p''"
  by code_simp

lemma letter_not_number:
  "''n'' \<noteq> str (int idx + 1) \<and> ''p'' \<noteq> str (int idx + 1)"
proof -
  have "\<not> list_all is_digit ''n''" "\<not> list_all is_digit ''p''" using not_digits by simp_all
  with number_digits[of idx] show ?thesis by metis
qed

lemma letter_not_item_choice:
  "''n'' \<notin> set (item_choices idx) \<and> ''p'' \<notin> set (item_choices idx)"
  using number_digits[of idx] letter_not_number[of idx]
  by (auto simp: item_choices_def Let_def)

lemma letter_not_in_items:
  "''n'' \<notin> set (concat (map item_choices xs)) \<and> ''p'' \<notin> set (concat (map item_choices xs))"
  using letter_not_item_choice by auto

lemma page_choices_next: "''n'' \<in> set (page_choices conv) \<longleftrightarrow> \<not> last_page conv"
  using letter_not_in_items[of "[0..<length (items conv)]"] by (auto simp: page_choices_def)

lemma page_choices_prev: "''p'' \<in> set (page_choices conv) \<longleftrightarrow> \<not> first_page conv"
  using letter_not_in_items[of "[0..<length (items conv)]"] by (auto simp: page_choices_def)

lemma set_conversation_title_trace:
  "set_conversation_title st w = (r, w') \<Longrightarrow> \<exists>es. trace w' = trace w @ es"
  by (auto simp: set_conversation_title_def emit_def Let_def split: if_splits list.splits)

lemma del_conversation_trace:
  "del_conversation st w = (r, w') \<Longrightarrow> \<exists>es. trace w' = trace w @ es"
  by (auto simp: del_conversation_def emit_def Let_def split: if_splits list.splits)

lemma choice_traces:
  "\<exists>es. trace (snd (choice_conversation page page_size w)) = trace w @ es"
  "\<exists>es. trace (snd (choice_loop page page_size its choices w))
      = trace w @ Prompt_ask ''Your choice'' choices # es"
proof (induction page page_size w and page page_size its choices w
    rule: choice_conversation_choice_loop.induct)
  case (1 page page_size w)
  show ?case
  proof (cases "listings w")
    case Nil
    then show ?thesis by (simp add: emit_def)
  next
    case (Cons conv rest)
    show ?thesis
    proof (cases "total conv = 0")
      case True
      with Cons show ?thesis by (simp add: emit_def)
    next
      case False
      let ?w = "emit (page_lines page conv)
         ((emit [Call_list_conversations ((page - 1) * page_size) page_size] w)\<lparr>listings := rest\<rparr>)"
      from 1[of "emit [Call_list_conversations ((page - 1) * page_size) page_size] w" conv rest
          "(emit [Call_list_conversations ((page - 1) * page_size) page_size] w)\<lparr>listings := rest\<rparr>"]
        Cons False
      obtain es where "trace (snd (choice_loop page page_size (items conv) (page_choices conv) ?w))
        = trace ?w @ Prompt_ask ''Your choice'' (page_choices conv) # es"
        by (auto simp: emit_def)
      with Cons False show ?thesis by (simp add: emit_def)
    qed
  qed
next
  case (2 page page_size its choices w)
  let ?w1 = "emit [Prompt_ask ''Your choice'' choices] w"
  show ?case
  proof (cases "ask_choice choices (answers w)")
    case None
    then show ?thesis by (simp add: emit_def)
  next
    case (Some cr)
    obtain choice rest where cr: "cr = (choice, rest)" by (cases cr) auto
    let ?w2 = "?w1\<lparr>answers := rest\<rparr>"
    have a: "ask_choice choices (answers ?w1) = Some (choice, rest)"
      using Some cr by (simp add: emit_def)
    have t2: "trace ?w2 = trace w @ [Prompt_ask ''Your choice'' choices]"
      by (simp add: emit_def)
    note ih = 2[OF refl a refl refl]
    consider (c) "''c'' = choice"
      | (n) "''c'' \<noteq> choice" "''n'' = choice"
      | (p) "''c'' \<noteq> choice" "''n'' \<noteq> choice" "''p'' = choice"
      | (e) "''c'' \<noteq> choice" "''n'' \<noteq> choice" "''p'' \<noteq> choice" "choice = []"
      | (t) "''c'' \<noteq> choice" "''n'' \<noteq> choice" "''p'' \<noteq> choice" "choice \<noteq> []"
          "CHR ''t'' = hd choice"
      | (d) "''c'' \<noteq> choice" "''n'' \<noteq> choice" "''p'' \<noteq> choice" "choice \<noteq> []"
          "CHR ''t'' \<noteq> hd choice" "CHR ''d'' = hd choice"
      | (i) "''c'' \<noteq> choice" "''n'' \<noteq> choice" "''p'' \<noteq> choice" "choice \<noteq> []"
          "CHR ''t'' \<noteq> hd choice" "CHR ''d'' \<noteq> hd choice"
      by blast
    then show ?thesis
    proof cases
      case c
      with a t2 show ?thesis by simp
    next
      case n
      from ih(1)[OF n] obtain es where
        "trace (snd (choice_conversation (page + 1) page_size ?w2)) = trace ?w2 @ es" by blast
      with a n t2 show ?thesis by simp
    next
      case p
      from ih(2)[OF p] obtain es where
        "trace (snd (choice_conversation (page - 1) page_size ?w2)) = trace ?w2 @ es" by blast
      with a p t2 show ?thesis by simp
    next
      case e
      with a t2 show ?thesis by simp
    next
      case t
      show ?thesis
      proof (cases "item_at its (tl choice)")
        case (Inl err)
        with a t t2 show ?thesis by simp
      next
        case (Inr it)
        obtain r w3 where s: "set_conversation_title
            (State_init None (Some (item_id it)) None None None ?w2) ?w2 = (r, w3)"
          by (cases "set_conversation_title
            (State_init None (Some (item_id it)) None None None ?w2) ?w2") auto
        from set_conversation_title_trace[OF s] obtain es1 where
          e1: "trace w3 = trace ?w2 @ es1" by blast
        show ?thesis
        proof (cases r)
          case (Return st)
          from ih(3)[OF t Inr s[symmetric, unfolded Return]] obtain es where
            "trace (snd (choice_conversation page page_size w3)) = trace w3 @ es" by blast
          with a t t2 Inr s Return e1 show ?thesis by simp
        next
          case (Raise x)
          with a t t2 Inr s e1 show ?thesis by simp
        next
          case Run
          with a t t2 Inr s e1 show ?thesis by simp
        qed
      qed
    next
      case d
      show ?thesis
      proof (cases "item_at its (tl choice)")
        case (Inl err)
        with a d t2 show ?thesis by simp
      next
        case (Inr it)
        obtain r w3 where s: "del_conversation
            (State_init None (Some (item_id it)) None None None ?w2) ?w2 = (r, w3)"
          by (cases "del_conversation
            (State_init None (Some (item_id it)) None None None ?w2) ?w2") auto
        from del_conversation_trace[OF s] obtain es1 where
          e1: "trace w3 = trace ?w2 @ es1" by blast
        show ?thesis
        proof (cases r)
          case (Return u)
          from ih(4)[OF d Inr s[symmetric, unfolded Return]] obtain es where
            "trace (snd (choice_loop page page_size its choices w3))
               = trace w3 @ Prompt_ask ''Your choice'' choices # es" by blast
          with a d t2 Inr s Return e1 show ?thesis by simp
        next
          case (Raise x)
          with a d t2 Inr s e1 show ?thesis by simp
        next
          case Run
          with a d t2 Inr s e1 show ?thesis by simp
        qed
      qed
    next
      case i
      with a t2 show ?thesis by (cases "item_at its choice") simp_all
    qed
  qed
qed

lemma choice_conversation_calls:
  "\<exists>es. trace (snd (choice_conversation page page_size w))
     = trace w @ Call_list_conversations ((page - 1) * page_size) page_size # es"
proof (cases "listings w")
  case Nil
  then show ?thesis by (simp add: emit_def)
next
  case (Cons conv rest)
  show ?thesis
  proof (cases "total conv = 0")
    case True
    with Cons show ?thesis by (simp add: emit_def)
  next
    case False
    let ?w = "emit (page_lines page conv)
       ((emit [Call_list_conversations ((page - 1) * page_size) page_size] w)\<lparr>listings := rest\<rparr>)"
    from choice_traces(2)[of page page_size "items conv" "page_choices conv" ?w] obtain es where
      "trace (snd (choice_loop page page_size (items conv) (page_choices conv) ?w))
        = trace ?w @ Prompt_ask ''Your choice'' (page_choices conv) # es" by blast
    with Cons False show ?thesis by (simp add: emit_def)
  qed
qed

lemma choice_conversation_page:
  assumes "listings w = conv # rest" and "total conv \<noteq> 0"
  shows "\<exists>es. trace (snd (choice_conversation page page_size w))
     = trace w @ [Call_list_conversations ((page - 1) * page_size) page_size]
       @ page_lines page conv @ Prompt_ask ''Your choice'' (page_choices conv) # es"
proof -
  let ?w = "emit (page_lines page conv)
     ((emit [Call_list_conversations ((page - 1) * page_size) page_size] w)\<lparr>listings := rest\<rparr>)"
  from choice_traces(2)[of page page_size "items conv" "page_choices conv" ?w] obtain es where
    "trace (snd (choice_loop page page_size (items conv) (page_choices conv) ?w))
      = trace ?w @ Prompt_ask ''Your choice'' (page_choices conv) # es" by blast
  with assms show ?thesis by (simp add: emit_def)
qed

text \<open>
  Claim C4, as the code has it. \<open>first_page\<close> is \<open>offset = 0\<close> and \<open>last_page\<close> is
  \<open>offset + limit >= total\<close>; in the list of choices of a page, \<open>n\<close> stands exactly when
  the page is not the last and \<open>p\<close> exactly when it is not the first. The selector shows
  the page and asks with these choices whenever the listing's total is not zero (with a
  zero total it returns before any choice is offered). With 45 conversations in pages of
  20, page 1 (offset 0) is asked for with offset 0 and offers \<open>n\<close> and no \<open>p\<close>; page 3
  (offset 40) is the last page and offers \<open>p\<close> and no \<open>n\<close>.
\<close>

theorem C4_pagination_of_a_shown_page:
  "(first_page conv \<longleftrightarrow> offset conv = 0)
   \<and> (last_page conv \<longleftrightarrow> offset conv + limit conv \<ge> total conv)
   \<and> (''n'' \<in> set (page_choices conv) \<longleftrightarrow> \<not> last_page conv)
   \<and> (''p'' \<in> set (page_choices conv) \<longleftrightarrow> \<not> first_page conv)
   \<and> (listings w = conv # rest \<and> total conv \<noteq> 0 \<longrightarrow>
        (\<exists>es. trace (snd (choice_conversation page page_size w))
           = trace w @ [Call_list_conversations ((page - 1) * page_size) page_size]
             @ page_lines page conv @ Prompt_ask ''Your choice'' (page_choices conv) # es))
   \<and> (listings w = page_of 45 0 its # rest \<longrightarrow>
        \<not> last_page (page_of 45 0 its)
        \<and> ''p'' \<notin> set (page_choices (page_of 45 0 its))
        \<and> ''n'' \<in> set (page_choices (page_of 45 0 its))
        \<and> (\<exists>es. trace (snd (choice_conversation 1 20 w))
             = trace w @ [Call_list_conversations 0 20] @ page_lines 1 (page_of 45 0 its)
               @ Prompt_ask ''Your choice'' (page_choices (page_of 45 0 its)) # es))
   \<and> (listings w = page_of 45 40 its # rest \<longrightarrow>
        last_page (page_of 45 40 its)
        \<and> ''n'' \<notin> set (page_choices (page_of 45 40 its))
        \<and> ''p'' \<in> set (page_choices (page_of 45 40 its))
        \<and> (\<exists>es. trace (snd (choice_conversation 3 20 w))
             = trace w @ [Call_list_conversations 40 20] @ page_lines 3 (page_of 45 40 its)
               @ Prompt_ask ''Your choice'' (page_choices (page_of 45 40 its)) # es))"
proof -
  have 1: "first_page conv \<longleftrightarrow> offset conv = 0" by (auto simp: first_page_def)
  have 2: "last_page conv \<longleftrightarrow> offset conv + limit conv \<ge> total conv" by (simp add: last_page_def)
  have 5: "listings w = conv # rest \<and> total conv \<noteq> 0 \<longrightarrow>
        (\<exists>es. trace (snd (choice_conversation page page_size w))
           = trace w @ [Call_list_conversations ((page - 1) * page_size) page_size]
             @ page_lines page conv @ Prompt_ask ''Your choice'' (page_choices conv) # es)"
    using choice_conversation_page[of w conv rest page page_size] by blast
  have f1: "\<not> last_page (page_of 45 0 its)" "first_page (page_of 45 0 its)"
    by (simp_all add: last_page_def first_page_def page_of_def)
  have f3: "last_page (page_of 45 40 its)" "\<not> first_page (page_of 45 40 its)"
    by (simp_all add: last_page_def first_page_def page_of_def)
  have 6: "listings w = page_of 45 0 its # rest \<longrightarrow>
        \<not> last_page (page_of 45 0 its)
        \<and> ''p'' \<notin> set (page_choices (page_of 45 0 its))
        \<and> ''n'' \<in> set (page_choices (page_of 45 0 its))
        \<and> (\<exists>es. trace (snd (choice_conversation 1 20 w))
             = trace w @ [Call_list_conversations 0 20] @ page_lines 1 (page_of 45 0 its)
               @ Prompt_ask ''Your choice'' (page_choices (page_of 45 0 its)) # es)"
    using choice_conversation_page[of w "page_of 45 0 its" rest 1 20] f1
      page_choices_next[of "page_of 45 0 its"] page_choices_prev[of "page_of 45 0 its"]
    by (simp add: page_of_def)
  have 7: "listings w = page_of 45 40 its # rest \<longrightarrow>
        last_page (page_of 45 40 its)
        \<and> ''n'' \<notin> set (page_choices (page_of 45 40 its))
        \<and> ''p'' \<in> set (page_choices (page_of 45 40 its))
        \<and> (\<exists>es. trace (snd (choice_conversation 3 20 w))
             = trace w @ [Call_list_conversations 40 20] @ page_lines 3 (page_of 45 40 its)
               @ Prompt_ask ''Your choice'' (page_choices (page_of 45 40 its)) # es)"
    using choice_conversation_page[of w "page_of 45 40 its" rest 3 20] f3
      page_choices_next[of "page_of 45 40 its"] page_choices_prev[of "page_of 45 40 its"]
    by (simp add: page_of_def)
  from 1 2 page_choices_next[of conv] page_choices_prev[of conv] 5 6 7 show ?thesis
    by blast
qed

theorem C4_pagination_of_a_shown_page_witness:
  "listings (started\<lparr>listings := [page_of 45 40 five_items], answers := [''c'']\<rparr>)
     = page_of 45 40 five_items # []
   \<and> total (page_of 45 40 five_items) \<noteq> 0
   \<and> last_page (page_of 45 40 five_items)
   \<and> ''n'' \<notin> set (page_choices (page_of 45 40 five_items))
   \<and> ''p'' \<in> set (page_choices (page_of 45 40 five_items))
   \<and> (\<exists>es. trace (snd (choice_conversation 3 20
                (started\<lparr>listings := [page_of 45 40 five_items], answers := [''c'']\<rparr>)))
         = [Call_list_conversations 40 20] @ page_lines 3 (page_of 45 40 five_items)
           @ Prompt_ask ''Your choice'' (page_choices (page_of 45 40 five_items)) # es)"
proof -
  have t: "total (page_of 45 40 five_items) \<noteq> 0" by (simp add: page_of_def)
  show ?thesis
    using C4_pagination_of_a_shown_page[of "page_of 45 40 five_items"
        "started\<lparr>listings := [page_of 45 40 five_items], answers := [''c'']\<rparr>" "[]" 3 20 five_items]
      t started_trace
    by (simp del: choice_conversation.simps add: page_of_def)
qed

text \<open>
  Claim C4 as stated, for every listing response, fails when the total is zero: for the
  response to page 2 with offset 20 and total 0 the page is not the first, but the
  selector returns \<^verbatim>\<open>None\<close> at once; nothing is asked, \<open>p\<close> is not offered, and the
  user's answer is left unread.
\<close>

theorem C4_empty_total_counterexample:
  "\<not> first_page (page_of 0 20 [])
   \<and> fst (choice_conversation 2 20 (started\<lparr>listings := [page_of 0 20 []], answers := [''p'']\<rparr>))
       = Return None
   \<and> trace (snd (choice_conversation 2 20 (started\<lparr>listings := [page_of 0 20 []], answers := [''p'']\<rparr>)))
       = [Call_list_conversations 20 20]
   \<and> answers (snd (choice_conversation 2 20 (started\<lparr>listings := [page_of 0 20 []], answers := [''p'']\<rparr>)))
       = [''p'']"
  by (simp add: first_page_def page_of_def emit_def started_trace)

lemma delete_choice_declined:
  assumes "ask_choice choices (answers w) = Some (CHR ''d'' # k, rest)"
    and "item_at its k = Inr it" and "item_id it \<noteq> []" and "confirms w = False # cs"
  shows "choice_loop page page_size its choices w
    = choice_loop page page_size its choices
        (w\<lparr>trace := trace w @ [Prompt_ask ''Your choice'' choices, Confirm_ask ''Are you sure?''],
           answers := rest, confirms := cs\<rparr>)"
proof -
  have "choice_loop page page_size its choices w = choice_loop page page_size its choices
      (snd (del_conversation (State_init None (Some (item_id it)) None None None w)
         ((emit [Prompt_ask ''Your choice'' choices] w)\<lparr>answers := rest\<rparr>)))"
    using assms
    by (subst choice_loop.simps)
      (simp del: choice_loop.simps choice_conversation.simps
        add: emit_def Let_def del_conversation_def State_init_def truthy_def)
  also have "snd (del_conversation (State_init None (Some (item_id it)) None None None w)
         ((emit [Prompt_ask ''Your choice'' choices] w)\<lparr>answers := rest\<rparr>)) = (w\<lparr>trace := trace w @ [Prompt_ask ''Your choice'' choices, Confirm_ask ''Are you sure?''],
           answers := rest, confirms := cs\<rparr>)"
    using assms
    by (simp add: emit_def Let_def del_conversation_def State_init_def truthy_def)
  finally show ?thesis .
qed

lemma delete_choice_failed:
  assumes "ask_choice choices (answers w) = Some (CHR ''d'' # k, rest)"
    and "item_at its k = Inr it" and "item_id it \<noteq> []" and "confirms w = True # cs"
    and "del_results w = False # ds"
  shows "choice_loop page page_size its choices w
    = choice_loop page page_size its choices
        (w\<lparr>trace := trace w @ [Prompt_ask ''Your choice'' choices, Confirm_ask ''Are you sure?'',
                                Call_del_conversation (item_id it),
                                Error ''#### Delete conversation failed.''],
           answers := rest, confirms := cs, del_results := ds\<rparr>)"
proof -
  have "choice_loop page page_size its choices w = choice_loop page page_size its choices
      (snd (del_conversation (State_init None (Some (item_id it)) None None None w)
         ((emit [Prompt_ask ''Your choice'' choices] w)\<lparr>answers := rest\<rparr>)))"
    using assms
    by (subst choice_loop.simps)
      (simp del: choice_loop.simps choice_conversation.simps
        add: emit_def Let_def del_conversation_def State_init_def truthy_def)
  also have "snd (del_conversation (State_init None (Some (item_id it)) None None None w)
         ((emit [Prompt_ask ''Your choice'' choices] w)\<lparr>answers := rest\<rparr>)) = (w\<lparr>trace := trace w @ [Prompt_ask ''Your choice'' choices, Confirm_ask ''Are you sure?'',
                                Call_del_conversation (item_id it),
                                Error ''#### Delete conversation failed.''],
           answers := rest, confirms := cs, del_results := ds\<rparr>)"
    using assms
    by (simp add: emit_def Let_def del_conversation_def State_init_def truthy_def)
  finally show ?thesis .
qed

lemma delete_choice_deleted:
  assumes "ask_choice choices (answers w) = Some (CHR ''d'' # k, rest)"
    and "item_at its k = Inr it" and "item_id it \<noteq> []" and "confirms w = True # cs"
    and "del_results w = True # ds"
  shows "choice_loop page page_size its choices w
    = (Run, w\<lparr>trace := trace w @ [Prompt_ask ''Your choice'' choices, Confirm_ask ''Are you sure?'',
                                Call_del_conversation (item_id it)],
           answers := rest, confirms := cs, del_results := ds\<rparr>)"
  using assms
  by (subst choice_loop.simps)
    (simp del: choice_loop.simps choice_conversation.simps
      add: emit_def Let_def del_conversation_def State_init_def truthy_def)

text \<open>
  Claim C5, as the code has it. In the selector's loop the answer \<open>d<idx>\<close>, for an item
  with an id, asks for confirmation. On decline no call is made and the loop asks for a
  choice again, with the same items and choices; on a failed delete the call is made, the
  failure is reported and the loop asks again in the same way: in both cases the page is
  neither fetched nor printed again. On a successful delete \<^verbatim>\<open>__del_conversation\<close> calls
  \<^verbatim>\<open>self.run()\<close>: the selector's loop is left, and the controller starts again with
  the selector on its first page (\<^verbatim>\<open>list_conversations(0, 20)\<close>).
\<close>

theorem C5_delete_choice:
  "(ask_choice choices (answers w) = Some (CHR ''d'' # k, rest)
      \<and> item_at its k = Inr it \<and> item_id it \<noteq> [] \<and> confirms w = False # cs \<longrightarrow>
     choice_loop page page_size its choices w
      = choice_loop page page_size its choices
          (w\<lparr>trace := trace w @ [Prompt_ask ''Your choice'' choices, Confirm_ask ''Are you sure?''],
             answers := rest, confirms := cs\<rparr>))
   \<and> (ask_choice choices (answers w) = Some (CHR ''d'' # k, rest)
      \<and> item_at its k = Inr it \<and> item_id it \<noteq> [] \<and> confirms w = True # cs
      \<and> del_results w = False # ds \<longrightarrow>
     choice_loop page page_size its choices w
      = choice_loop page page_size its choices
          (w\<lparr>trace := trace w @ [Prompt_ask ''Your choice'' choices, Confirm_ask ''Are you sure?'',
                                  Call_del_conversation (item_id it),
                                  Error ''#### Delete conversation failed.''],
             answers := rest, confirms := cs, del_results := ds\<rparr>))
   \<and> (ask_choice choices (answers w) = Some (CHR ''d'' # k, rest)
      \<and> item_at its k = Inr it \<and> item_id it \<noteq> [] \<and> confirms w = True # cs
      \<and> del_results w = True # ds \<longrightarrow>
     choice_loop page page_size its choices w
      = (Run, w\<lparr>trace := trace w @ [Prompt_ask ''Your choice'' choices, Confirm_ask ''Are you sure?'',
                                  Call_del_conversation (item_id it)],
             answers := rest, confirms := cs, del_results := ds\<rparr>)
     \<and> (\<exists>es. trace (snd (run_choice_conversation (snd (choice_loop page page_size its choices w))))
           = trace (snd (choice_loop page page_size its choices w))
             @ Call_list_conversations 0 20 # es))"
proof (intro conjI impI)
  assume "ask_choice choices (answers w) = Some (CHR ''d'' # k, rest)
      \<and> item_at its k = Inr it \<and> item_id it \<noteq> [] \<and> confirms w = False # cs"
  then show "choice_loop page page_size its choices w
      = choice_loop page page_size its choices
          (w\<lparr>trace := trace w @ [Prompt_ask ''Your choice'' choices, Confirm_ask ''Are you sure?''],
             answers := rest, confirms := cs\<rparr>)"
    using delete_choice_declined by blast
next
  assume "ask_choice choices (answers w) = Some (CHR ''d'' # k, rest)
      \<and> item_at its k = Inr it \<and> item_id it \<noteq> [] \<and> confirms w = True # cs
      \<and> del_results w = False # ds"
  then show "choice_loop page page_size its choices w
      = choice_loop page page_size its choices
          (w\<lparr>trace := trace w @ [Prompt_ask ''Your choice'' choices, Confirm_ask ''Are you sure?'',
                                  Call_del_conversation (item_id it),
                                  Error ''#### Delete conversation failed.''],
             answers := rest, confirms := cs, del_results := ds\<rparr>)"
    using delete_choice_failed by blast
next
  assume "ask_choice choices (answers w) = Some (CHR ''d'' # k, rest)
      \<and> item_at its k = Inr it \<and> item_id it \<noteq> [] \<and> confirms w = True # cs
      \<and> del_results w = True # ds"
  then show "choice_loop page page_size its choices w
      = (Run, w\<lparr>trace := trace w @ [Prompt_ask ''Your choice'' choices, Confirm_ask ''Are you sure?'',
                                  Call_del_conversation (item_id it)],
             answers := rest, confirms := cs, del_results := ds\<rparr>)"
    using delete_choice_deleted by blast
next
  show "\<exists>es. trace (snd (run_choice_conversation (snd (choice_loop page page_size its choices w))))
           = trace (snd (choice_loop page page_size its choices w))
             @ Call_list_conversations 0 20 # es"
    using choice_conversation_calls[of 1 20 "snd (choice_loop page page_size its choices w)"]
    by (simp add: run_choice_conversation_def del: choice_conversation.simps choice_loop.simps)
qed

lemma page3_choices:
  "page_choices (page_of 45 40 five_items)
    = [''c'', ''1'', ''t1'', ''d1'', ''2'', ''t2'', ''d2'', ''3'', ''t3'', ''d3'',
       ''4'', ''t4'', ''d4'', ''5'', ''t5'', ''d5'', ''p'']"
  by code_simp

lemma page3_first: "item_at five_items ''1'' = Inr \<lparr>item_id = ''i41'', item_title = ''Forty-one''\<rparr>"
  by code_simp

theorem C5_delete_choice_witness:
  "ask_choice (page_choices (page_of 45 40 five_items)) [''d1'', ''c''] = Some (CHR ''d'' # ''1'', [''c''])
   \<and> item_at five_items ''1'' = Inr \<lparr>item_id = ''i41'', item_title = ''Forty-one''\<rparr>
   \<and> choice_loop 3 20 five_items (page_choices (page_of 45 40 five_items))
        (started\<lparr>answers := [''d1'', ''c''], confirms := [False]\<rparr>)
      = choice_loop 3 20 five_items (page_choices (page_of 45 40 five_items))
          (started\<lparr>trace := [Prompt_ask ''Your choice'' (page_choices (page_of 45 40 five_items)),
                              Confirm_ask ''Are you sure?''],
             answers := [''c''], confirms := []\<rparr>)
   \<and> choice_loop 3 20 five_items (page_choices (page_of 45 40 five_items))
        (started\<lparr>answers := [''d1'', ''c''], confirms := [True], del_results := [False]\<rparr>)
      = choice_loop 3 20 five_items (page_choices (page_of 45 40 five_items))
          (started\<lparr>trace := [Prompt_ask ''Your choice'' (page_choices (page_of 45 40 five_items)),
                              Confirm_ask ''Are you sure?'', Call_del_conversation ''i41'',
                              Error ''#### Delete conversation failed.''],
             answers := [''c''], confirms := [], del_results := []\<rparr>)
   \<and> choice_loop 3 20 five_items (page_choices (page_of 45 40 five_items))
        (started\<lparr>answers := [''d1'', ''c''], confirms := [True], del_results := [True]\<rparr>)
      = (Run, started\<lparr>trace := [Prompt_ask ''Your choice'' (page_choices (page_of 45 40 five_items)),
                              Confirm_ask ''Are you sure?'', Call_del_conversation ''i41''],
             answers := [''c''], confirms := [], del_results := []\<rparr>)"
proof -
  let ?ch = "page_choices (page_of 45 40 five_items)"
  let ?it = "\<lparr>item_id = ''i41'', item_title = ''Forty-one''\<rparr>"
  have a: "ask_choice ?ch [''d1'', ''c''] = Some (CHR ''d'' # ''1'', [''c''])"
    by (simp add: page3_choices)
  have 1: "choice_loop 3 20 five_items ?ch (started\<lparr>answers := [''d1'', ''c''], confirms := [False]\<rparr>)
      = choice_loop 3 20 five_items ?ch
          (started\<lparr>trace := [Prompt_ask ''Your choice'' ?ch, Confirm_ask ''Are you sure?''],
             answers := [''c''], confirms := []\<rparr>)"
    using C5_delete_choice[of ?ch "started\<lparr>answers := [''d1'', ''c''], confirms := [False]\<rparr>"
        "''1''" "[''c'']" five_items ?it "[]" 3 20 "[]"] a page3_first started_trace
    by (simp del: choice_loop.simps choice_conversation.simps)
  have 2: "choice_loop 3 20 five_items ?ch
        (started\<lparr>answers := [''d1'', ''c''], confirms := [True], del_results := [False]\<rparr>)
      = choice_loop 3 20 five_items ?ch
          (started\<lparr>trace := [Prompt_ask ''Your choice'' ?ch,
                              Confirm_ask ''Are you sure?'', Call_del_conversation ''i41'',
                              Error ''#### Delete conversation failed.''],
             answers := [''c''], confirms := [], del_results := []\<rparr>)"
    using C5_delete_choice[of ?ch
        "started\<lparr>answers := [''d1'', ''c''], confirms := [True], del_results := [False]\<rparr>"
        "''1''" "[''c'']" five_items ?it "[]" 3 20 "[]"] a page3_first started_trace
    by (simp del: choice_loop.simps choice_conversation.simps)
  have 3: "choice_loop 3 20 five_items ?ch
        (started\<lparr>answers := [''d1'', ''c''], confirms := [True], del_results := [True]\<rparr>)
      = (Run, started\<lparr>trace := [Prompt_ask ''Your choice'' ?ch,
                              Confirm_ask ''Are you sure?'', Call_del_conversation ''i41''],
             answers := [''c''], confirms := [], del_results := []\<rparr>)"
    using C5_delete_choice[of ?ch
        "started\<lparr>answers := [''d1'', ''c''], confirms := [True], del_results := [True]\<rparr>"
        "''1''" "[''c'']" five_items ?it "[]" 3 20 "[]"] a page3_first started_trace
    by (simp del: choice_loop.simps choice_conversation.simps)
  from a page3_first 1 2 3 show ?thesis by blast
qed

text \<open>
  Claim C5 as stated fails after a confirmed, successful delete: on page 3 (offset 40) the
  answer \<open>d1\<close> ends the selector's call with \<^verbatim>\<open>self.run()\<close>, and what is fetched and
  shown next is page 1 (offset 0) of a new run of the controller, not page 3 again.
\<close>

theorem C5_delete_restarts_counterexample:
  "fst (choice_conversation 3 20 (on_page_3\<lparr>confirms := [True], del_results := [True]\<rparr>)) = Run
   \<and> trace (snd (choice_conversation 3 20 (on_page_3\<lparr>confirms := [True], del_results := [True]\<rparr>)))
       = [Call_list_conversations 40 20] @ page_lines 3 (page_of 45 40 five_items)
         @ [Prompt_ask ''Your choice'' (page_choices (page_of 45 40 five_items)),
            Confirm_ask ''Are you sure?'', Call_del_conversation ''i41'']
   \<and> trace (snd (run_choice_conversation
         (snd (choice_conversation 3 20 (on_page_3\<lparr>confirms := [True], del_results := [True]\<rparr>)))))
       = [Call_list_conversations 40 20] @ page_lines 3 (page_of 45 40 five_items)
         @ [Prompt_ask ''Your choice'' (page_choices (page_of 45 40 five_items)),
            Confirm_ask ''Are you sure?'', Call_del_conversation ''i41'']
         @ [Call_list_conversations 0 20] @ page_lines 1 (page_of 44 0 twenty_items)
         @ [Prompt_ask ''Your choice'' (page_choices (page_of 44 0 twenty_items))]"
  by code_simp

end
